theory Spec2Isabelle
  imports Main "HOL-Library.Word"
begin

section \<open>Session authentication service and community management\<close>

text \<open>
  A shallow embedding of the two request handlers
  \<^verbatim>\<open>supabase/functions/mobile-auth/index.ts\<close> and
  \<^verbatim>\<open>supabase/functions/manage-community/index.ts\<close>, and of the database
  function \<^verbatim>\<open>refresh_session\<close> of the migration
  \<^verbatim>\<open>20260123041845_ccf6885b-9e80-411b-bb34-cc87ef28c896.sql\<close>.

  The handlers are sequences of awaited store calls. A handler is modelled as a
  function from the platform services it reads (clock, random bytes, generated
  identifier, digest), the tables before the request and the parsed request to
  the response and the tables after the request. The store is a sequential
  relational store: a call fails where a declared constraint rejects the row
  or where \<^verbatim>\<open>single()\<close> / \<^verbatim>\<open>maybeSingle()\<close> do not find the number of rows
  they ask for, and every such failure is a value of a sum type.

  JSON fields are strings, \<open>None\<close> when the field is missing or null.
  Strings are lists of 8-bit characters, the UTF-8 bytes of the text.
\<close>

subsection \<open>Basic types\<close>

type_synonym uuid = nat
type_synonym timestamp = int \<comment> \<open>milliseconds since the epoch\<close>
type_synonym byte = "8 word"

text \<open>\<^verbatim>\<open>30 * 24 * 60 * 60 * 1000\<close>, also \<^verbatim>\<open>interval '30 days'\<close> in milliseconds.\<close>

definition thirty_days :: timestamp where
  "thirty_days = 30 * 24 * 60 * 60 * 1000"

subsection \<open>The username pattern\<close>

text \<open>
  \<^verbatim>\<open>const usernameRegex = /^[a-zA-Z0-9_]{3,30}$/;\<close>

  A character class is a list of ranges and literals. The pattern is a bounded
  repetition of one class between the anchors \<^verbatim>\<open>^\<close> and \<^verbatim>\<open>$\<close>: the
  repetition takes as many leading characters of the class as it can, at most
  the upper bound; giving characters back cannot help, since \<^verbatim>\<open>$\<close>
  (without the multiline flag) only matches at the end of the input.
\<close>

datatype char_class = CharRange char char | CharLit char

fun class_member :: "char_class list \<Rightarrow> char \<Rightarrow> bool" where
  "class_member [] c = False"
| "class_member (CharRange lo hi # cs) c =
     (((of_char lo :: nat) \<le> of_char c \<and> (of_char c :: nat) \<le> of_char hi) \<or> class_member cs c)"
| "class_member (CharLit d # cs) c = (c = d \<or> class_member cs c)"

fun repeat_class :: "char_class list \<Rightarrow> nat \<Rightarrow> string \<Rightarrow> nat" where
  "repeat_class cls 0 s = 0"
| "repeat_class cls (Suc n) [] = 0"
| "repeat_class cls (Suc n) (c # s) =
     (if class_member cls c then Suc (repeat_class cls n s) else 0)"

definition anchored_repeat_test :: "char_class list \<Rightarrow> nat \<Rightarrow> nat \<Rightarrow> string \<Rightarrow> bool" where
  "anchored_repeat_test cls lo hi s =
     (let k = repeat_class cls hi s in lo \<le> k \<and> drop k s = [])"

definition usernameClass :: "char_class list" where
  "usernameClass = [CharRange CHR ''a'' CHR ''z'', CharRange CHR ''A'' CHR ''Z'',
                    CharRange CHR ''0'' CHR ''9'', CharLit CHR ''_'']"

definition usernameRegex_test :: "string \<Rightarrow> bool" where
  "usernameRegex_test s = anchored_repeat_test usernameClass 3 30 s"

text \<open>\<^verbatim>\<open>username.toLowerCase()\<close>, on 8-bit characters: the letters A to Z.\<close>

definition char_toLowerCase :: "char \<Rightarrow> char" where
  "char_toLowerCase c =
     (if (65::nat) \<le> of_char c \<and> (of_char c :: nat) \<le> 90
      then char_of ((of_char c :: nat) + 32) else c)"

definition toLowerCase :: "string \<Rightarrow> string" where
  "toLowerCase s = map char_toLowerCase s"

subsection \<open>Digest and token encoding\<close>

text \<open>
  \<^verbatim>\<open>b.toString(16).padStart(2, "0")\<close>: the two lower-case hexadecimal digits
  of a byte.
\<close>

definition hex_digit :: "nat \<Rightarrow> char" where
  "hex_digit n = (if n < 10 then char_of (48 + n) else char_of (87 + n))"

definition byte_hex :: "byte \<Rightarrow> string" where
  "byte_hex b = [hex_digit (unat b div 16), hex_digit (unat b mod 16)]"

definition hex_encode :: "byte list \<Rightarrow> string" where
  "hex_encode bs = concat (map byte_hex bs)"

text \<open>
  The platform services one request reads: \<open>rt_random i\<close> is the byte that
  \<^verbatim>\<open>crypto.getRandomValues\<close> writes at index \<open>i\<close>, \<open>rt_now\<close> is
  \<^verbatim>\<open>Date.now()\<close> (and the store's \<^verbatim>\<open>now()\<close>), \<open>rt_uuid\<close> the value of
  \<^verbatim>\<open>gen_random_uuid()\<close> for a row inserted by this request, and
  \<open>rt_configured\<close> says that both environment variables are set.
\<close>

record runtime =
  rt_random :: "nat \<Rightarrow> byte"
  rt_now :: timestamp
  rt_uuid :: uuid
  rt_configured :: bool

text \<open>
  \<^verbatim>\<open>new TextEncoder().encode(password)\<close>: the bytes of the string. The digest
  \<^verbatim>\<open>crypto.subtle.digest("SHA-256", _)\<close> is a function of the platform, the
  same at every request, and a parameter of the model.
\<close>

type_synonym digest = "byte list \<Rightarrow> byte list"

definition encode :: "string \<Rightarrow> byte list" where
  "encode s = map of_char s"

definition hashPassword :: "digest \<Rightarrow> string \<Rightarrow> string" where
  "hashPassword sha password = hex_encode (sha (encode password))"

definition verifyPassword :: "digest \<Rightarrow> string \<Rightarrow> string \<Rightarrow> bool" where
  "verifyPassword sha password hash = (hashPassword sha password = hash)"

definition generateSessionToken :: "runtime \<Rightarrow> string" where
  "generateSessionToken rt = hex_encode (map (rt_random rt) [0..<32])"

subsection \<open>Tables\<close>

text \<open>
  \<^verbatim>\<open>user_credentials\<close> is declared in the migration
  \<^verbatim>\<open>20260119073225\<close>: \<^verbatim>\<open>id UUID PRIMARY KEY\<close>,
  \<^verbatim>\<open>mobile_number TEXT NOT NULL UNIQUE\<close>, \<^verbatim>\<open>password_hash TEXT NOT NULL\<close>.
  The handlers read and write the listed columns of \<^verbatim>\<open>profiles\<close> and
  \<^verbatim>\<open>user_sessions\<close>; a username may be null (the profile page stores
  \<^verbatim>\<open>username.trim() || null\<close>).
\<close>

record credential =
  cred_id :: uuid
  cred_mobile :: string
  cred_hash :: string

record profile =
  prof_id :: uuid
  prof_full_name :: string
  prof_mobile :: string
  prof_username :: "string option"
  prof_online :: bool

record session =
  sess_user :: uuid
  sess_token :: string
  sess_expires :: timestamp
  sess_active :: bool
  sess_updated :: timestamp

record store =
  credentials :: "credential list"
  profiles :: "profile list"
  sessions :: "session list"

text \<open>
  The tables of the community handler. \<^verbatim>\<open>community_discussions\<close> is declared
  in a migration (\<^verbatim>\<open>id UUID PRIMARY KEY\<close>,
  \<^verbatim>\<open>community_id UUID REFERENCES communities(id) ON DELETE CASCADE\<close>); the
  handler reads and writes the listed columns of \<^verbatim>\<open>communities\<close> and
  \<^verbatim>\<open>community_members\<close>.
\<close>

record community =
  comm_id :: uuid
  comm_name :: string
  comm_description :: "string option"
  comm_cover_image_url :: "string option"
  comm_created_by :: uuid
  comm_updated_at :: timestamp

record member =
  mem_community :: uuid
  mem_user :: uuid
  mem_role :: string

record discussion =
  disc_id :: uuid
  disc_user :: uuid
  disc_community :: uuid
  disc_content :: string

record community_store =
  cm_sessions :: "session list"
  communities :: "community list"
  community_members :: "member list"
  community_discussions :: "discussion list"

text \<open>
  The declarations of \<^verbatim>\<open>communities\<close> and \<^verbatim>\<open>community_members\<close> are not
  among the sources, so what they reject is a parameter of the handler:
  whether a community row is accepted beside the other rows (on insertion and
  on update), whether a member row is accepted, and what the deletion of a
  community does to the member rows that refer to it (an error, or the
  remaining rows).
\<close>

record constraints =
  community_ok :: "community list \<Rightarrow> community \<Rightarrow> bool"
  member_ok :: "community_store \<Rightarrow> member \<Rightarrow> bool"
  members_on_delete :: "member list \<Rightarrow> uuid \<Rightarrow> member list option"

datatype store_error = UniqueViolation | MultipleRows | NoRows | Rejected

text \<open>
  \<^verbatim>\<open>.maybeSingle()\<close> yields the row or null, and an error for more than one
  row; \<^verbatim>\<open>.single()\<close> yields an error unless there is exactly one row.
\<close>

fun maybeSingle :: "'a list \<Rightarrow> store_error + 'a option" where
  "maybeSingle [] = Inr None"
| "maybeSingle [r] = Inr (Some r)"
| "maybeSingle (r # r' # rs) = Inl MultipleRows"

fun single :: "'a list \<Rightarrow> store_error + 'a" where
  "single [] = Inl NoRows"
| "single [r] = Inr r"
| "single (r # r' # rs) = Inl MultipleRows"

text \<open>\<^verbatim>\<open>const { data } = await ...\<close>: the data, null on an error.\<close>

fun data_of :: "store_error + 'a option \<Rightarrow> 'a option" where
  "data_of (Inl e) = None"
| "data_of (Inr d) = d"

fun data_of_single :: "store_error + 'a \<Rightarrow> 'a option" where
  "data_of_single (Inl e) = None"
| "data_of_single (Inr d) = Some d"

text \<open>
  Insertion into \<^verbatim>\<open>user_credentials\<close>: the identifier is generated, the
  primary key and the unique mobile number are checked, the row is returned
  (\<^verbatim>\<open>.insert(...).select().single()\<close>).
\<close>

definition insert_credential ::
  "runtime \<Rightarrow> string \<Rightarrow> string \<Rightarrow> credential list \<Rightarrow> store_error + (credential \<times> credential list)" where
  "insert_credential rt mobile hash cs =
     (if rt_uuid rt \<in> set (map cred_id cs) \<or> mobile \<in> set (map cred_mobile cs)
      then Inl UniqueViolation
      else (let row = \<lparr>cred_id = rt_uuid rt, cred_mobile = mobile, cred_hash = hash\<rparr>
            in Inr (row, cs @ [row])))"

text \<open>
  Modelled from the spec: the declaration of \<^verbatim>\<open>profiles\<close> is not among the
  sources. A profile is keyed by the identifier of its credential, and the
  username is unique across profile records without regard to letter case.
  The online flag of a new row is off.
\<close>

definition username_clash :: "string option \<Rightarrow> string option \<Rightarrow> bool" where
  "username_clash a b =
     (case (a, b) of (Some x, Some y) \<Rightarrow> toLowerCase x = toLowerCase y | _ \<Rightarrow> False)"

definition insert_profile :: "profile \<Rightarrow> profile list \<Rightarrow> store_error + profile list" where
  "insert_profile row ps =
     (if prof_id row \<in> set (map prof_id ps)
         \<or> list_ex (\<lambda>p. username_clash (prof_username p) (prof_username row)) ps
      then Inl UniqueViolation
      else Inr (ps @ [row]))"

text \<open>
  Modelled from the spec: the declaration of \<^verbatim>\<open>user_sessions\<close> is not among
  the sources. The session token is unique, and a session row is created
  active (the handlers do not set \<^verbatim>\<open>is_active\<close> on insertion).
\<close>

definition insert_session ::
  "runtime \<Rightarrow> uuid \<Rightarrow> string \<Rightarrow> timestamp \<Rightarrow> session list \<Rightarrow> store_error + session list" where
  "insert_session rt user token expires ss =
     (if token \<in> set (map sess_token ss) then Inl UniqueViolation
      else Inr (ss @ [\<lparr>sess_user = user, sess_token = token, sess_expires = expires,
                       sess_active = True, sess_updated = rt_now rt\<rparr>]))"

text \<open>
  Modelled from the spec: the database function \<^verbatim>\<open>validate_session\<close> is
  called by the community handler and is not among the sources. It looks the
  session row up by token; the session is valid only if its active flag is
  true and its expiry is in the future, and then the owning user identifier
  is returned.
\<close>

definition validate_session :: "timestamp \<Rightarrow> session list \<Rightarrow> string \<Rightarrow> uuid option" where
  "validate_session now ss token =
     (case filter (\<lambda>s. sess_token s = token \<and> sess_active s \<and> now < sess_expires s) ss of
        [] \<Rightarrow> None
      | s # _ \<Rightarrow> Some (sess_user s))"

text \<open>
  \<^verbatim>\<open>refresh_session(p_session_token)\<close>: the \<^verbatim>\<open>UPDATE ... RETURNING true INTO\<close>
  of the migration. PL/pgSQL raises an error when a data-modifying statement
  with \<^verbatim>\<open>RETURNING ... INTO\<close> returns more than one row, and the statement
  then changes nothing; with no row the variable stays null and
  \<^verbatim>\<open>COALESCE\<close> yields false.
\<close>

definition refresh_matches :: "timestamp \<Rightarrow> string \<Rightarrow> session \<Rightarrow> bool" where
  "refresh_matches now token s =
     (sess_token s = token \<and> sess_active s = True \<and> now < sess_expires s)"

definition refresh_session :: "timestamp \<Rightarrow> session list \<Rightarrow> string \<Rightarrow> store_error + (bool \<times> session list)" where
  "refresh_session now ss p_session_token =
     (case filter (refresh_matches now p_session_token) ss of
        [] \<Rightarrow> Inr (False, ss)
      | [s] \<Rightarrow> Inr (True, map (\<lambda>r. if refresh_matches now p_session_token r
                                     then r\<lparr>sess_expires := now + thirty_days, sess_updated := now\<rparr>
                                     else r) ss)
      | s # s' # rest \<Rightarrow> Inl MultipleRows)"

subsection \<open>Requests and responses\<close>

record auth_body =
  action :: "string option"
  mobile_number :: "string option"
  password :: "string option"
  full_name :: "string option"
  username :: "string option"
  session_token :: "string option"

text \<open>
  The user object of a success payload: \<^verbatim>\<open>{ id, mobile_number, full_name }\<close> at
  signup; at signin the profile row, when there is one, is spread over these
  fields.
\<close>

record user_view =
  uv_id :: uuid
  uv_mobile :: string
  uv_full_name :: "string option"
  uv_profile :: "profile option"

datatype payload =
    NoBody
  | ErrorMsg string
  | StoreMessage store_error
  | AuthSuccess user_view string
  | Success
  | CreatedCommunity community

record response =
  status :: nat
  body :: payload

definition respond :: "nat \<Rightarrow> payload \<Rightarrow> response" where
  "respond st b = \<lparr>status = st, body = b\<rparr>"

subsection \<open>The authentication handler\<close>

text \<open>The \<^verbatim>\<open>signup\<close> branch, lines 59 to 175.\<close>

definition signup ::
  "digest \<Rightarrow> runtime \<Rightarrow> store \<Rightarrow> string \<Rightarrow> string \<Rightarrow> string option \<Rightarrow> string option
     \<Rightarrow> response \<times> store" where
  "signup sha rt db mobile pw fn un =
     (case (fn, un) of
        (Some f, Some u) \<Rightarrow>
          if f = [] \<or> u = [] then
            (respond 400 (ErrorMsg ''Full name and username are required for signup''), db)
          else if \<not> usernameRegex_test u then
            (respond 400 (ErrorMsg ''Username must be 3-30 characters and only contain letters, numbers, and underscores''), db)
          else (case data_of (maybeSingle (filter (\<lambda>c. cred_mobile c = mobile) (credentials db))) of
            Some existingUser \<Rightarrow>
              (respond 400 (ErrorMsg ''This mobile number is already registered''), db)
          | None \<Rightarrow>
          (case data_of (maybeSingle (filter (\<lambda>p. prof_username p = Some (toLowerCase u)) (profiles db))) of
            Some existingUsername \<Rightarrow>
              (respond 400 (ErrorMsg ''This username is already taken''), db)
          | None \<Rightarrow>
          (case insert_credential rt mobile (hashPassword sha pw) (credentials db) of
            Inl credError \<Rightarrow>
              (respond 500 (ErrorMsg ''Failed to create account''), db)
          | Inr (cred, cs) \<Rightarrow>
          (let db1 = db\<lparr>credentials := cs\<rparr> in
           case insert_profile \<lparr>prof_id = cred_id cred, prof_full_name = f, prof_mobile = mobile,
                                prof_username = Some (toLowerCase u), prof_online = False\<rparr>
                               (profiles db1) of
            Inl profileError \<Rightarrow>
              (respond 500 (ErrorMsg ''Failed to create profile''),
               db1\<lparr>credentials := filter (\<lambda>c. cred_id c \<noteq> cred_id cred) (credentials db1)\<rparr>)
          | Inr ps \<Rightarrow>
          (let db2 = db1\<lparr>profiles := ps\<rparr>;
               sessionToken = generateSessionToken rt in
           case insert_session rt (cred_id cred) sessionToken (rt_now rt + thirty_days) (sessions db2) of
            Inl sessionError \<Rightarrow>
              (respond 500 (ErrorMsg ''Failed to create session''), db2)
          | Inr ss \<Rightarrow>
              (respond 200 (AuthSuccess \<lparr>uv_id = cred_id cred, uv_mobile = mobile,
                                         uv_full_name = Some f, uv_profile = None\<rparr> sessionToken),
               db2\<lparr>sessions := ss\<rparr>))))))
      | _ \<Rightarrow> (respond 400 (ErrorMsg ''Full name and username are required for signup''), db))"

text \<open>The \<^verbatim>\<open>signin\<close> branch, lines 177 to 253.\<close>

definition signin :: "digest \<Rightarrow> runtime \<Rightarrow> store \<Rightarrow> string \<Rightarrow> string \<Rightarrow> response \<times> store" where
  "signin sha rt db mobile pw =
     (case maybeSingle (filter (\<lambda>c. cred_mobile c = mobile) (credentials db)) of
        Inl credError \<Rightarrow> (respond 401 (ErrorMsg ''Invalid mobile number or password''), db)
      | Inr None \<Rightarrow> (respond 401 (ErrorMsg ''Invalid mobile number or password''), db)
      | Inr (Some cred) \<Rightarrow>
          if \<not> verifyPassword sha pw (cred_hash cred) then
            (respond 401 (ErrorMsg ''Invalid mobile number or password''), db)
          else
           (let prof = data_of_single (single (filter (\<lambda>p. prof_id p = cred_id cred) (profiles db)));
                sessionToken = generateSessionToken rt;
                db1 = db\<lparr>sessions := map (\<lambda>s. if sess_user s = cred_id cred
                                                then s\<lparr>sess_active := False\<rparr> else s) (sessions db)\<rparr>
            in case insert_session rt (cred_id cred) sessionToken (rt_now rt + thirty_days) (sessions db1) of
                 Inl sessionError \<Rightarrow>
                   (respond 500 (ErrorMsg ''Failed to create session''), db1)
               | Inr ss \<Rightarrow>
                   (let db2 = db1\<lparr>sessions := ss\<rparr>;
                        db3 = db2\<lparr>profiles := map (\<lambda>p. if prof_id p = cred_id cred
                                                        then p\<lparr>prof_online := True\<rparr> else p) (profiles db2)\<rparr>
                    in (respond 200 (AuthSuccess
                          (case prof of
                             None \<Rightarrow> \<lparr>uv_id = cred_id cred, uv_mobile = mobile,
                                      uv_full_name = None, uv_profile = None\<rparr>
                           | Some p \<Rightarrow> \<lparr>uv_id = prof_id p, uv_mobile = prof_mobile p,
                                        uv_full_name = Some (prof_full_name p), uv_profile = Some p\<rparr>)
                          sessionToken),
                        db3))))"

text \<open>The body of the handler after \<^verbatim>\<open>await req.json()\<close>, lines 50 to 260.\<close>

definition mobile_auth :: "digest \<Rightarrow> runtime \<Rightarrow> store \<Rightarrow> auth_body \<Rightarrow> response \<times> store" where
  "mobile_auth sha rt db b =
     (case (mobile_number b, password b) of
        (Some m, Some p) \<Rightarrow>
          if m = [] \<or> p = [] then
            (respond 400 (ErrorMsg ''Mobile number and password are required''), db)
          else if action b = Some ''signup'' then signup sha rt db m p (full_name b) (username b)
          else if action b = Some ''signin'' then signin sha rt db m p
          else (respond 400 (ErrorMsg ''Invalid action''), db)
      | _ \<Rightarrow> (respond 400 (ErrorMsg ''Mobile number and password are required''), db))"

text \<open>
  The whole handler: the preflight answer, the configuration check, and the
  \<^verbatim>\<open>catch\<close> around a body that does not parse (\<open>None\<close>).
\<close>

record auth_request =
  req_method :: string
  req_json :: "auth_body option"

definition serve :: "digest \<Rightarrow> runtime \<Rightarrow> store \<Rightarrow> auth_request \<Rightarrow> response \<times> store" where
  "serve sha rt db req =
     (if req_method req = ''OPTIONS'' then (respond 200 NoBody, db)
      else if \<not> rt_configured rt then (respond 500 (ErrorMsg ''Server not configured''), db)
      else (case req_json req of
              None \<Rightarrow> (respond 500 (ErrorMsg ''Internal server error''), db)
            | Some b \<Rightarrow> mobile_auth sha rt db b))"

subsection \<open>The community handler\<close>

record community_body =
  cb_action :: "string option"
  cb_community_id :: "uuid option"
  cb_name :: "string option"
  cb_description :: "string option"
  cb_cover_image_url :: "string option"
  cb_discussion_id :: "uuid option"

text \<open>
  \<^verbatim>\<open>String.prototype.trim\<close> removes the white space and the line terminators
  of ECMAScript at both ends: TAB, LF, VT, FF, CR, SP, U+00A0, U+1680, U+2000
  to U+200A, U+2028, U+2029, U+202F, U+205F, U+3000 and U+FEFF. They are
  listed by their UTF-8 bytes; none is empty and none is the start or the end
  of another.
\<close>

definition white_space :: "nat list list" where
  "white_space =
     [[9], [10], [11], [12], [13], [32], [194, 160], [225, 154, 128]]
     @ map (\<lambda>n. [226, 128, n]) [128..<139]
     @ [[226, 128, 168], [226, 128, 169], [226, 128, 175], [226, 129, 159],
        [227, 128, 128], [239, 187, 191]]"

text \<open>The string without one white space at its start, or at its end, when there is one.\<close>

definition strip_start :: "string \<Rightarrow> string option" where
  "strip_start s =
     (case filter (\<lambda>w. w \<noteq> [] \<and> take (length w) (map of_char s) = w) white_space of
        [] \<Rightarrow> None
      | w # _ \<Rightarrow> Some (drop (length w) s))"

definition strip_end :: "string \<Rightarrow> string option" where
  "strip_end s =
     (case filter (\<lambda>w. w \<noteq> [] \<and> length w \<le> length s
                        \<and> drop (length s - length w) (map of_char s) = w) white_space of
        [] \<Rightarrow> None
      | w # _ \<Rightarrow> Some (take (length s - length w) s))"

function trim_start :: "string \<Rightarrow> string" where
  "trim_start s = (case strip_start s of None \<Rightarrow> s | Some r \<Rightarrow> trim_start r)"
  by pat_completeness auto
termination
proof (relation "measure length")
  show "wf (measure length)" by simp
next
  fix s r assume "strip_start s = Some r"
  then obtain w ws
    where f: "filter (\<lambda>w. w \<noteq> [] \<and> take (length w) (map of_char s) = w) white_space = w # ws"
      and r: "r = drop (length w) s"
    by (auto simp: strip_start_def split: list.splits)
  from f have "w \<in> set (filter (\<lambda>w. w \<noteq> [] \<and> take (length w) (map of_char s) = w) white_space)"
    by simp
  then have w: "w \<noteq> []" "take (length w) (map of_char s) = w" by simp_all
  from w(2) have "length (take (length w) (map of_char s :: nat list)) = length w" by simp
  then have "length w \<le> length s" by simp
  with w(1) r have "length r < length s" by (cases w) auto
  then show "(r, s) \<in> measure length" by simp
qed

function trim_end :: "string \<Rightarrow> string" where
  "trim_end s = (case strip_end s of None \<Rightarrow> s | Some r \<Rightarrow> trim_end r)"
  by pat_completeness auto
termination
proof (relation "measure length")
  show "wf (measure length)" by simp
next
  fix s r assume "strip_end s = Some r"
  then obtain w ws
    where f: "filter (\<lambda>w. w \<noteq> [] \<and> length w \<le> length s
                \<and> drop (length s - length w) (map of_char s) = w) white_space = w # ws"
      and r: "r = take (length s - length w) s"
    by (auto simp: strip_end_def split: list.splits)
  from f have "w \<in> set (filter (\<lambda>w. w \<noteq> [] \<and> length w \<le> length s
                \<and> drop (length s - length w) (map of_char s) = w) white_space)"
    by simp
  then have w: "w \<noteq> []" "length w \<le> length s" by simp_all
  with r have "length r < length s" by (cases w) auto
  then show "(r, s) \<in> measure length" by simp
qed

definition trim :: "string \<Rightarrow> string" where
  "trim s = trim_end (trim_start s)"

text \<open>\<^verbatim>\<open>v || null\<close> for a string or missing value.\<close>

definition or_null :: "string option \<Rightarrow> string option" where
  "or_null v = (case v of None \<Rightarrow> None | Some x \<Rightarrow> if x = [] then None else Some x)"

text \<open>The \<^verbatim>\<open>create\<close> branch, lines 50 to 95.\<close>

definition create_community ::
  "constraints \<Rightarrow> runtime \<Rightarrow> community_store \<Rightarrow> uuid \<Rightarrow> community_body \<Rightarrow> response \<times> community_store" where
  "create_community k rt db userId b =
     (case or_null (map_option trim (cb_name b)) of
        None \<Rightarrow> (respond 400 (ErrorMsg ''Community name is required''), db)
      | Some trimmed \<Rightarrow>
       (let row = \<lparr>comm_id = rt_uuid rt, comm_name = trimmed,
                   comm_description = or_null (map_option trim (cb_description b)),
                   comm_cover_image_url = or_null (cb_cover_image_url b),
                   comm_created_by = userId, comm_updated_at = rt_now rt\<rparr>
        in if rt_uuid rt \<in> set (map comm_id (communities db)) then
             (respond 400 (StoreMessage UniqueViolation), db)
           else if \<not> community_ok k (communities db) row then
             (respond 400 (StoreMessage Rejected), db)
           else
            (let db1 = db\<lparr>communities := communities db @ [row]\<rparr>;
                 m = \<lparr>mem_community = comm_id row, mem_user = userId, mem_role = ''admin''\<rparr>;
                 db2 = (if member_ok k db1 m
                        then db1\<lparr>community_members := community_members db1 @ [m]\<rparr> else db1)
             in (respond 200 (CreatedCommunity row), db2))))"

text \<open>The \<^verbatim>\<open>update\<close> branch, lines 98 to 142.\<close>

definition update_community ::
  "constraints \<Rightarrow> runtime \<Rightarrow> community_store \<Rightarrow> uuid \<Rightarrow> community_body \<Rightarrow> response \<times> community_store" where
  "update_community k rt db userId b =
     (case cb_community_id b of
        None \<Rightarrow> (respond 400 (ErrorMsg ''Community ID is required''), db)
      | Some cid \<Rightarrow>
         (case data_of_single (single (filter (\<lambda>c. comm_id c = cid) (communities db))) of
            None \<Rightarrow> (respond 403 (ErrorMsg ''Not authorized to update this community''), db)
          | Some existingCommunity \<Rightarrow>
              if comm_created_by existingCommunity \<noteq> userId then
                (respond 403 (ErrorMsg ''Not authorized to update this community''), db)
              else
               (let row = existingCommunity
                            \<lparr>comm_name := (case cb_name b of None \<Rightarrow> comm_name existingCommunity
                                                          | Some n \<Rightarrow> trim n),
                             comm_description := or_null (map_option trim (cb_description b)),
                             comm_cover_image_url := or_null (cb_cover_image_url b),
                             comm_updated_at := rt_now rt\<rparr>
                in if \<not> community_ok k (filter (\<lambda>c. comm_id c \<noteq> cid) (communities db)) row then
                     (respond 400 (StoreMessage Rejected), db)
                   else
                     (respond 200 Success,
                      db\<lparr>communities := map (\<lambda>c. if comm_id c = cid then row else c) (communities db)\<rparr>))))"

text \<open>
  The \<^verbatim>\<open>delete\<close> branch, lines 145 to 184. Deleting a community deletes its
  discussions (\<^verbatim>\<open>ON DELETE CASCADE\<close>).
\<close>

definition delete_community ::
  "constraints \<Rightarrow> runtime \<Rightarrow> community_store \<Rightarrow> uuid \<Rightarrow> community_body \<Rightarrow> response \<times> community_store" where
  "delete_community k rt db userId b =
     (case cb_community_id b of
        None \<Rightarrow> (respond 400 (ErrorMsg ''Community ID is required''), db)
      | Some cid \<Rightarrow>
         (case data_of_single (single (filter (\<lambda>c. comm_id c = cid) (communities db))) of
            None \<Rightarrow> (respond 403 (ErrorMsg ''Not authorized to delete this community''), db)
          | Some existingCommunity \<Rightarrow>
              if comm_created_by existingCommunity \<noteq> userId then
                (respond 403 (ErrorMsg ''Not authorized to delete this community''), db)
              else
               (case members_on_delete k (community_members db) cid of
                  None \<Rightarrow> (respond 400 (StoreMessage Rejected), db)
                | Some ms \<Rightarrow>
                    (respond 200 Success,
                     db\<lparr>communities := filter (\<lambda>c. comm_id c \<noteq> cid) (communities db),
                        community_members := ms,
                        community_discussions :=
                          filter (\<lambda>d. disc_community d \<noteq> cid) (community_discussions db)\<rparr>))))"

text \<open>The \<^verbatim>\<open>join\<close> branch, lines 187 to 215.\<close>

definition join_community ::
  "constraints \<Rightarrow> runtime \<Rightarrow> community_store \<Rightarrow> uuid \<Rightarrow> community_body \<Rightarrow> response \<times> community_store" where
  "join_community k rt db userId b =
     (case cb_community_id b of
        None \<Rightarrow> (respond 400 (ErrorMsg ''Community ID is required''), db)
      | Some cid \<Rightarrow>
         (let m = \<lparr>mem_community = cid, mem_user = userId, mem_role = ''member''\<rparr>
          in if \<not> member_ok k db m then (respond 400 (StoreMessage Rejected), db)
             else (respond 200 Success, db\<lparr>community_members := community_members db @ [m]\<rparr>)))"

text \<open>The \<^verbatim>\<open>leave\<close> branch, lines 218 to 244.\<close>

definition leave_community ::
  "constraints \<Rightarrow> runtime \<Rightarrow> community_store \<Rightarrow> uuid \<Rightarrow> community_body \<Rightarrow> response \<times> community_store" where
  "leave_community k rt db userId b =
     (case cb_community_id b of
        None \<Rightarrow> (respond 400 (ErrorMsg ''Community ID is required''), db)
      | Some cid \<Rightarrow>
          (respond 200 Success,
           db\<lparr>community_members :=
                 filter (\<lambda>m. \<not> (mem_community m = cid \<and> mem_user m = userId)) (community_members db)\<rparr>))"

text \<open>The \<^verbatim>\<open>delete_discussion\<close> branch, lines 247 to 308.\<close>

definition delete_discussion ::
  "constraints \<Rightarrow> runtime \<Rightarrow> community_store \<Rightarrow> uuid \<Rightarrow> community_body \<Rightarrow> response \<times> community_store" where
  "delete_discussion k rt db userId b =
     (case cb_discussion_id b of
        None \<Rightarrow> (respond 400 (ErrorMsg ''Discussion ID is required''), db)
      | Some did \<Rightarrow>
         (case maybeSingle (filter (\<lambda>d. disc_id d = did) (community_discussions db)) of
            Inl fetchError \<Rightarrow> (respond 404 (ErrorMsg ''Discussion not found''), db)
          | Inr None \<Rightarrow> (respond 404 (ErrorMsg ''Discussion not found''), db)
          | Inr (Some discussion) \<Rightarrow>
             (let isOwner = (disc_user discussion = userId);
                  isAdmin = (if \<not> isOwner then
                     (case data_of (maybeSingle (filter (\<lambda>c. comm_id c = disc_community discussion)
                                                        (communities db))) of
                        None \<Rightarrow> False
                      | Some c \<Rightarrow> comm_created_by c = userId)
                     else False)
              in if \<not> isOwner \<and> \<not> isAdmin then
                   (respond 403 (ErrorMsg ''Not authorized to delete this discussion''), db)
                 else
                   (respond 200 Success,
                    db\<lparr>community_discussions :=
                          filter (\<lambda>d. disc_id d \<noteq> did) (community_discussions db)\<rparr>))))"

text \<open>
  The body of the handler from the session check on, lines 28 to 313. The
  token is the \<^verbatim>\<open>x-session-token\<close> header; the request body is parsed after
  the session check, and a body that does not parse (\<open>None\<close>) ends in the
  \<^verbatim>\<open>catch\<close>.
\<close>

definition manage_community ::
  "constraints \<Rightarrow> runtime \<Rightarrow> community_store \<Rightarrow> string option \<Rightarrow> community_body option
     \<Rightarrow> response \<times> community_store" where
  "manage_community k rt db header json =
     (case or_null header of
        None \<Rightarrow> (respond 401 (ErrorMsg ''No session token provided''), db)
      | Some sessionToken \<Rightarrow>
         (case validate_session (rt_now rt) (cm_sessions db) sessionToken of
            None \<Rightarrow> (respond 401 (ErrorMsg ''Invalid or expired session''), db)
          | Some userId \<Rightarrow>
             (case json of
                None \<Rightarrow> (respond 500 (ErrorMsg ''Internal server error''), db)
              | Some b \<Rightarrow>
                  if cb_action b = Some ''create'' then create_community k rt db userId b
                  else if cb_action b = Some ''update'' then update_community k rt db userId b
                  else if cb_action b = Some ''delete'' then delete_community k rt db userId b
                  else if cb_action b = Some ''join'' then join_community k rt db userId b
                  else if cb_action b = Some ''leave'' then leave_community k rt db userId b
                  else if cb_action b = Some ''delete_discussion'' then delete_discussion k rt db userId b
                  else (respond 400 (ErrorMsg ''Invalid action''), db))))"

record community_request =
  creq_method :: string
  creq_session_token :: "string option"
  creq_json :: "community_body option"

definition serve_community ::
  "constraints \<Rightarrow> runtime \<Rightarrow> community_store \<Rightarrow> community_request \<Rightarrow> response \<times> community_store" where
  "serve_community k rt db req =
     (if creq_method req = ''OPTIONS'' then (respond 200 NoBody, db)
      else if \<not> rt_configured rt then (respond 500 (ErrorMsg ''Server not configured''), db)
      else manage_community k rt db (creq_session_token req) (creq_json req))"

text \<open>The characters the specification allows in a username.\<close>

definition allowed_chars :: "char set" where
  "allowed_chars = set ''abcdefghijklmnopqrstuvwxyzABCDEFGHIJKLMNOPQRSTUVWXYZ0123456789_''"

subsection \<open>Error taxonomy\<close>

text \<open>The responses the handler gives for each kind of failure.\<close>

definition ValidationError :: "response set" where
  "ValidationError =
     {respond 400 (ErrorMsg ''Mobile number and password are required''),
      respond 400 (ErrorMsg ''Full name and username are required for signup''),
      respond 400 (ErrorMsg ''Username must be 3-30 characters and only contain letters, numbers, and underscores'')}"

definition ConflictError :: "response set" where
  "ConflictError =
     {respond 400 (ErrorMsg ''This mobile number is already registered''),
      respond 400 (ErrorMsg ''This username is already taken'')}"

definition AuthError :: response where
  "AuthError = respond 401 (ErrorMsg ''Invalid mobile number or password'')"

definition is_success :: "response \<Rightarrow> bool" where
  "is_success r = (status r = 200 \<and> (case body r of AuthSuccess u t \<Rightarrow> True | _ \<Rightarrow> False))"

text \<open>A runtime and a request for the concrete instances below.\<close>

definition demo_digest :: digest where
  "demo_digest bs = rev bs"

definition demo_runtime :: runtime where
  "demo_runtime = \<lparr>rt_random = (\<lambda>i. of_nat i), rt_now = 1000, rt_uuid = 7, rt_configured = True\<rparr>"

definition empty_store :: store where
  "empty_store = \<lparr>credentials = [], profiles = [], sessions = []\<rparr>"

definition signup_body :: "string \<Rightarrow> string \<Rightarrow> string \<Rightarrow> string \<Rightarrow> auth_body" where
  "signup_body m p f u =
     \<lparr>action = Some ''signup'', mobile_number = Some m, password = Some p,
      full_name = Some f, username = Some u, session_token = None\<rparr>"

definition signin_body :: "string \<Rightarrow> string \<Rightarrow> auth_body" where
  "signin_body m p =
     \<lparr>action = Some ''signin'', mobile_number = Some m, password = Some p,
      full_name = None, username = None, session_token = None\<rparr>"

text \<open>Tables and requests of the community handler for the concrete instances.\<close>

definition demo_constraints :: constraints where
  "demo_constraints =
     \<lparr>community_ok = (\<lambda>cs c. comm_name c \<notin> set (map comm_name cs)),
      member_ok = (\<lambda>db m. mem_community m \<in> set (map comm_id (communities db))
                        \<and> \<not> list_ex (\<lambda>x. mem_community x = mem_community m \<and> mem_user x = mem_user m)
                                     (community_members db)),
      members_on_delete = (\<lambda>ms cid. Some (filter (\<lambda>m. mem_community m \<noteq> cid) ms))\<rparr>"

definition demo_community_store :: community_store where
  "demo_community_store =
     \<lparr>cm_sessions =
        [\<lparr>sess_user = 1, sess_token = ''tok-asha'', sess_expires = 5000, sess_active = True, sess_updated = 0\<rparr>,
         \<lparr>sess_user = 2, sess_token = ''tok-ravi'', sess_expires = 5000, sess_active = True, sess_updated = 0\<rparr>,
         \<lparr>sess_user = 3, sess_token = ''tok-mini'', sess_expires = 5000, sess_active = True, sess_updated = 0\<rparr>,
         \<lparr>sess_user = 3, sess_token = ''tok-stale'', sess_expires = 5000, sess_active = False, sess_updated = 0\<rparr>],
      communities =
        [\<lparr>comm_id = 10, comm_name = ''Weavers'', comm_description = None,
          comm_cover_image_url = None, comm_created_by = 2, comm_updated_at = 0\<rparr>],
      community_members = [],
      community_discussions =
        [\<lparr>disc_id = 5, disc_user = 1, disc_community = 10, disc_content = ''hello''\<rparr>,
         \<lparr>disc_id = 6, disc_user = 3, disc_community = 10, disc_content = ''looms''\<rparr>]\<rparr>"

definition delete_discussion_body :: "uuid \<Rightarrow> community_body" where
  "delete_discussion_body did =
     \<lparr>cb_action = Some ''delete_discussion'', cb_community_id = None, cb_name = None,
      cb_description = None, cb_cover_image_url = None, cb_discussion_id = Some did\<rparr>"

subsection \<open>Conditions on a request and the tables\<close>

text \<open>
  The identifier generated for the request is not the key of a stored
  credential or profile, and the token drawn for the request is not a stored
  session token.
\<close>

definition fresh_uuid :: "runtime \<Rightarrow> store \<Rightarrow> bool" where
  "fresh_uuid rt db =
     (rt_uuid rt \<notin> set (map cred_id (credentials db)) \<and> rt_uuid rt \<notin> set (map prof_id (profiles db)))"

definition fresh_token :: "runtime \<Rightarrow> store \<Rightarrow> bool" where
  "fresh_token rt db = (generateSessionToken rt \<notin> set (map sess_token (sessions db)))"

text \<open>The mobile number has no credential; the username, in any letter case, has no profile.\<close>

definition mobile_unused :: "string \<Rightarrow> store \<Rightarrow> bool" where
  "mobile_unused m db = (m \<notin> set (map cred_mobile (credentials db)))"

definition username_unused :: "string \<Rightarrow> store \<Rightarrow> bool" where
  "username_unused u db = (\<not> list_ex (\<lambda>r. username_clash (prof_username r) (Some u)) (profiles db))"

text \<open>The rows a successful registration adds.\<close>

definition new_credential :: "digest \<Rightarrow> runtime \<Rightarrow> string \<Rightarrow> string \<Rightarrow> credential" where
  "new_credential sha rt m p =
     \<lparr>cred_id = rt_uuid rt, cred_mobile = m, cred_hash = hashPassword sha p\<rparr>"

definition new_profile :: "runtime \<Rightarrow> string \<Rightarrow> string \<Rightarrow> string \<Rightarrow> profile" where
  "new_profile rt m f u =
     \<lparr>prof_id = rt_uuid rt, prof_full_name = f, prof_mobile = m,
      prof_username = Some (toLowerCase u), prof_online = False\<rparr>"

definition new_session :: "runtime \<Rightarrow> uuid \<Rightarrow> session" where
  "new_session rt user =
     \<lparr>sess_user = user, sess_token = generateSessionToken rt,
      sess_expires = rt_now rt + thirty_days, sess_active = True, sess_updated = rt_now rt\<rparr>"

definition registered :: "digest \<Rightarrow> runtime \<Rightarrow> store \<Rightarrow> string \<Rightarrow> string \<Rightarrow> string \<Rightarrow> string \<Rightarrow> store" where
  "registered sha rt db m p f u =
     db\<lparr>credentials := credentials db @ [new_credential sha rt m p],
        profiles := profiles db @ [new_profile rt m f u],
        sessions := sessions db @ [new_session rt (rt_uuid rt)]\<rparr>"

text \<open>
  A store with one registered user whose username was edited on the profile
  page (which keeps the letter case), for the concrete instances.
\<close>

definition demo_store :: store where
  "demo_store =
     \<lparr>credentials = [\<lparr>cred_id = 3, cred_mobile = ''9000000001'',
                       cred_hash = hashPassword demo_digest ''pw-ravi''\<rparr>],
      profiles = [\<lparr>prof_id = 3, prof_full_name = ''Ravi'', prof_mobile = ''9000000001'',
                    prof_username = Some ''Ravi_K'', prof_online = False\<rparr>],
      sessions = [\<lparr>sess_user = 3, sess_token = ''c0ffee'', sess_expires = 5000,
                    sess_active = True, sess_updated = 0\<rparr>]\<rparr>"

text \<open>The runtime of a later request, for the concrete instances.\<close>

definition later_runtime :: runtime where
  "later_runtime = \<lparr>rt_random = (\<lambda>i. of_nat (200 + i)), rt_now = 2000, rt_uuid = 8,
                     rt_configured = True\<rparr>"

text \<open>What the signin branch does to the sessions of a user before it inserts the new one.\<close>

definition invalidate :: "uuid \<Rightarrow> session list \<Rightarrow> session list" where
  "invalidate user ss = map (\<lambda>s. if sess_user s = user then s\<lparr>sess_active := False\<rparr> else s) ss"

text \<open>A credential row for the mobile number whose stored digest is the digest of the password.\<close>

definition credential_matches :: "digest \<Rightarrow> store \<Rightarrow> string \<Rightarrow> string \<Rightarrow> bool" where
  "credential_matches sha db m p =
     list_ex (\<lambda>c. cred_mobile c = m \<and> cred_hash c = hashPassword sha p) (credentials db)"

text \<open>The request of the admin console: an action and a session token only.\<close>

definition admin_validate_body :: "string \<Rightarrow> auth_body" where
  "admin_validate_body t =
     \<lparr>action = Some ''admin_validate'', mobile_number = None, password = None,
      full_name = None, username = None, session_token = Some t\<rparr>"

text \<open>The user object and the tables of a successful signin for a credential row.\<close>

definition signin_user :: "store \<Rightarrow> credential \<Rightarrow> string \<Rightarrow> user_view" where
  "signin_user db c m =
     (case data_of_single (single (filter (\<lambda>r. prof_id r = cred_id c) (profiles db))) of
        None \<Rightarrow> \<lparr>uv_id = cred_id c, uv_mobile = m, uv_full_name = None, uv_profile = None\<rparr>
      | Some r \<Rightarrow> \<lparr>uv_id = prof_id r, uv_mobile = prof_mobile r,
                   uv_full_name = Some (prof_full_name r), uv_profile = Some r\<rparr>)"

definition signed_in :: "runtime \<Rightarrow> store \<Rightarrow> uuid \<Rightarrow> store" where
  "signed_in rt db user =
     db\<lparr>sessions := invalidate user (sessions db) @ [new_session rt user],
        profiles := map (\<lambda>r. if prof_id r = user then r\<lparr>prof_online := True\<rparr> else r) (profiles db)\<rparr>"

text \<open>A create request, for the concrete instances.\<close>

definition create_body :: "string \<Rightarrow> community_body" where
  "create_body n =
     \<lparr>cb_action = Some ''create'', cb_community_id = None, cb_name = Some n,
      cb_description = None, cb_cover_image_url = None, cb_discussion_id = None\<rparr>"

section \<open>Properties\<close>

subsection \<open>The username pattern is the set of names the specification describes\<close>

lemma class_member_usernameClass: "class_member usernameClass c \<longleftrightarrow> c \<in> allowed_chars"
  by (cases c) (simp add: usernameClass_def allowed_chars_def)

lemma repeat_class_le: "repeat_class cls n s \<le> length s"
  by (induction cls n s rule: repeat_class.induct) auto

lemma repeat_class_full:
  "repeat_class cls n s = length s \<longleftrightarrow> length s \<le> n \<and> (\<forall>c \<in> set s. class_member cls c)"
  by (induction cls n s rule: repeat_class.induct) auto

lemma anchored_repeat_test_iff:
  "anchored_repeat_test cls lo hi s \<longleftrightarrow>
     lo \<le> length s \<and> length s \<le> hi \<and> (\<forall>c \<in> set s. class_member cls c)"
proof -
  have "drop (repeat_class cls hi s) s = [] \<longleftrightarrow> repeat_class cls hi s = length s"
    using repeat_class_le [of cls hi s] by auto
  then show ?thesis
    unfolding anchored_repeat_test_def Let_def
    using repeat_class_full [of cls hi s] by auto
qed

lemma usernameRegex_test_iff:
  "usernameRegex_test u \<longleftrightarrow> 3 \<le> length u \<and> length u \<le> 30 \<and> set u \<subseteq> allowed_chars"
  unfolding usernameRegex_test_def anchored_repeat_test_iff
  by (auto simp: class_member_usernameClass)


subsection \<open>Username validation\<close>

lemma signup_bad_username:
  assumes "\<not> usernameRegex_test u"
  shows "fst (signup sha rt db m p fn (Some u)) \<in> ValidationError \<and> snd (signup sha rt db m p fn (Some u)) = db"
  using assms by (cases fn) (simp_all add: signup_def ValidationError_def)

text \<open>
  C7. A signup request whose username has a character outside
  \<open>[A-Za-z0-9_]\<close>, or fewer than 3 or more than 30 characters, is answered
  with a validation error of status 400 and the tables are unchanged; every
  username of 3 to 30 letters, digits and underscores passes the pattern, and
  the handler does not answer it with the username-format error.
\<close>

theorem register_username_validation:
  "(action b = Some ''signup'' \<and> username b = Some u
      \<and> \<not> (3 \<le> length u \<and> length u \<le> 30 \<and> set u \<subseteq> allowed_chars)
    \<longrightarrow> fst (mobile_auth sha rt db b) \<in> ValidationError
        \<and> status (fst (mobile_auth sha rt db b)) = 400
        \<and> snd (mobile_auth sha rt db b) = db)
   \<and> (3 \<le> length u \<and> length u \<le> 30 \<and> set u \<subseteq> allowed_chars
    \<longrightarrow> usernameRegex_test u
        \<and> (action b = Some ''signup'' \<and> username b = Some u \<longrightarrow>
             fst (mobile_auth sha rt db b) \<noteq>
               respond 400 (ErrorMsg ''Username must be 3-30 characters and only contain letters, numbers, and underscores'')))"
proof (intro conjI impI)
  assume a: "action b = Some ''signup'' \<and> username b = Some u
      \<and> \<not> (3 \<le> length u \<and> length u \<le> 30 \<and> set u \<subseteq> allowed_chars)"
  then have bad: "\<not> usernameRegex_test u"
    by (simp add: usernameRegex_test_iff)
  have v: "fst (mobile_auth sha rt db b) \<in> ValidationError \<and> snd (mobile_auth sha rt db b) = db"
  proof (cases "mobile_number b")
    case None
    then show ?thesis by (simp add: mobile_auth_def ValidationError_def)
  next
    case (Some m)
    show ?thesis
    proof (cases "password b")
      case None
      with Some show ?thesis by (simp add: mobile_auth_def ValidationError_def)
    next
      case (Some p)
      show ?thesis
      proof (cases "m = [] \<or> p = []")
        case True
        with Some \<open>mobile_number b = Some m\<close> show ?thesis
          by (auto simp: mobile_auth_def ValidationError_def)
      next
        case False
        with Some \<open>mobile_number b = Some m\<close> a
        have "mobile_auth sha rt db b = signup sha rt db m p (full_name b) (Some u)"
          by (simp add: mobile_auth_def)
        with signup_bad_username [OF bad] show ?thesis by simp
      qed
    qed
  qed
  from v show "fst (mobile_auth sha rt db b) \<in> ValidationError" by simp
  from v show "status (fst (mobile_auth sha rt db b)) = 400"
    by (auto simp: ValidationError_def respond_def)
  from v show "snd (mobile_auth sha rt db b) = db" by simp
next
  assume g: "3 \<le> length u \<and> length u \<le> 30 \<and> set u \<subseteq> allowed_chars"
  then show ok: "usernameRegex_test u" by (simp add: usernameRegex_test_iff)
  assume a: "action b = Some ''signup'' \<and> username b = Some u"
  from g have "u \<noteq> []" by auto
  with ok a show "fst (mobile_auth sha rt db b) \<noteq>
      respond 400 (ErrorMsg ''Username must be 3-30 characters and only contain letters, numbers, and underscores'')"
    by (auto simp: mobile_auth_def signup_def respond_def Let_def
             split: option.splits sum.splits prod.splits)
qed

theorem register_username_validation_witness:
  "fst (mobile_auth demo_digest demo_runtime empty_store (signup_body ''9876543210'' ''secret'' ''Asha'' ''a-b'')) \<in> ValidationError
   \<and> snd (mobile_auth demo_digest demo_runtime empty_store (signup_body ''9876543210'' ''secret'' ''Asha'' ''a-b'')) = empty_store
   \<and> usernameRegex_test ''asha_01''
   \<and> is_success (fst (mobile_auth demo_digest demo_runtime empty_store (signup_body ''9876543210'' ''secret'' ''Asha'' ''asha_01'')))"
proof -
  have bad: "\<not> (3 \<le> length ''a-b'' \<and> length ''a-b'' \<le> 30 \<and> set ''a-b'' \<subseteq> allowed_chars)"
    by (simp add: allowed_chars_def)
  have good: "3 \<le> length ''asha_01'' \<and> length ''asha_01'' \<le> 30 \<and> set ''asha_01'' \<subseteq> allowed_chars"
    by (simp add: allowed_chars_def)
  have 1: "fst (mobile_auth demo_digest demo_runtime empty_store (signup_body ''9876543210'' ''secret'' ''Asha'' ''a-b'')) \<in> ValidationError
     \<and> snd (mobile_auth demo_digest demo_runtime empty_store (signup_body ''9876543210'' ''secret'' ''Asha'' ''a-b'')) = empty_store"
    using bad register_username_validation
      [of "signup_body ''9876543210'' ''secret'' ''Asha'' ''a-b''" "''a-b''" demo_digest demo_runtime empty_store]
    by (simp add: signup_body_def)
  have 2: "usernameRegex_test ''asha_01''"
    using good register_username_validation
      [of "signup_body ''9876543210'' ''secret'' ''Asha'' ''asha_01''" "''asha_01''" demo_digest demo_runtime empty_store]
    by blast
  have 3: "is_success (fst (mobile_auth demo_digest demo_runtime empty_store (signup_body ''9876543210'' ''secret'' ''Asha'' ''asha_01'')))"
    using 2
    by (simp add: mobile_auth_def signup_body_def signup_def demo_runtime_def empty_store_def
          insert_credential_def insert_profile_def insert_session_def is_success_def respond_def Let_def)
  from 1 2 3 show ?thesis by simp
qed


subsection \<open>Session validation guards every write of the community handler\<close>

text \<open>
  C9. Whatever the action, a request without the session-token header, or with
  a token for which \<open>validate_session\<close> yields no user, is answered 401 and
  leaves every table as it was; so a request that changes a table presented a
  token that \<open>validate_session\<close> mapped to a user identifier.
\<close>

theorem community_write_needs_session:
  "((header = None \<or> header = Some [] \<or>
       (\<exists>t. header = Some t \<and> validate_session (rt_now rt) (cm_sessions db) t = None))
     \<longrightarrow> status (fst (manage_community k rt db header json)) = 401
         \<and> snd (manage_community k rt db header json) = db)
   \<and> (snd (manage_community k rt db header json) \<noteq> db
     \<longrightarrow> (\<exists>t userId. header = Some t \<and> validate_session (rt_now rt) (cm_sessions db) t = Some userId))"
  by (auto simp: manage_community_def or_null_def respond_def split: option.splits if_splits)

theorem community_write_needs_session_witness:
  "status (fst (manage_community demo_constraints demo_runtime demo_community_store
                  (Some ''tok-stale'') (Some (delete_discussion_body 6)))) = 401
   \<and> snd (manage_community demo_constraints demo_runtime demo_community_store
             (Some ''tok-stale'') (Some (delete_discussion_body 6))) = demo_community_store
   \<and> snd (manage_community demo_constraints demo_runtime demo_community_store
             (Some ''tok-mini'') (Some (delete_discussion_body 6))) \<noteq> demo_community_store
   \<and> validate_session (rt_now demo_runtime) (cm_sessions demo_community_store) ''tok-mini'' = Some 3"
proof -
  have stale: "validate_session (rt_now demo_runtime) (cm_sessions demo_community_store) ''tok-stale'' = None"
    by (simp add: validate_session_def demo_runtime_def demo_community_store_def)
  have a: "status (fst (manage_community demo_constraints demo_runtime demo_community_store
                  (Some ''tok-stale'') (Some (delete_discussion_body 6)))) = 401
     \<and> snd (manage_community demo_constraints demo_runtime demo_community_store
             (Some ''tok-stale'') (Some (delete_discussion_body 6))) = demo_community_store"
    using stale community_write_needs_session
      [of "Some ''tok-stale''" demo_runtime demo_community_store demo_constraints
          "Some (delete_discussion_body 6)"]
    by blast
  have valid: "validate_session (rt_now demo_runtime) (cm_sessions demo_community_store) ''tok-mini'' = Some 3"
    by (simp add: validate_session_def demo_runtime_def demo_community_store_def)
  have "community_discussions (snd (manage_community demo_constraints demo_runtime demo_community_store
             (Some ''tok-mini'') (Some (delete_discussion_body 6))))
        \<noteq> community_discussions demo_community_store"
    using valid
    by (simp add: manage_community_def or_null_def delete_discussion_body_def delete_discussion_def
          demo_community_store_def Let_def)
  then have b: "snd (manage_community demo_constraints demo_runtime demo_community_store
             (Some ''tok-mini'') (Some (delete_discussion_body 6))) \<noteq> demo_community_store"
    by auto
  from b community_write_needs_session
      [of "Some ''tok-mini''" demo_runtime demo_community_store demo_constraints
          "Some (delete_discussion_body 6)"]
  have "\<exists>t userId. Some ''tok-mini'' = Some t
          \<and> validate_session (rt_now demo_runtime) (cm_sessions demo_community_store) t = Some userId"
    by blast
  with a b valid show ?thesis by simp
qed

text \<open>
  The preflight answer and the configuration failure of the whole handler
  write nothing either.
\<close>

lemma serve_community_write_needs_session:
  assumes "snd (serve_community k rt db req) \<noteq> db"
  shows "\<exists>t userId. creq_session_token req = Some t
                   \<and> validate_session (rt_now rt) (cm_sessions db) t = Some userId"
  using assms
  by (auto simp: serve_community_def manage_community_def or_null_def
           split: option.splits if_splits)

subsection \<open>Blank community names\<close>

text \<open>
  A name that is only white space, a no-break space included, is trimmed to
  the empty string, and the create branch refuses it; a name keeps its inner
  spaces.
\<close>

lemma trim_examples:
  "trim [CHR 0xC2, CHR 0xA0] = []"
  "trim ('' '' @ [CHR 0xE2, CHR 0x80, CHR 0xA8, CHR 0x09]) = []"
  "trim (''  Hand loom '' @ [CHR 0xEF, CHR 0xBB, CHR 0xBF]) = ''Hand loom''"
  by code_simp+

lemma create_community_blank_name:
  "create_community k rt db userId (create_body [CHR 0xC2, CHR 0xA0]) =
     (respond 400 (ErrorMsg ''Community name is required''), db)"
  by (simp add: create_community_def create_body_def or_null_def trim_examples)

subsection \<open>Who may delete a discussion\<close>

lemma filter_key_absent: "k \<notin> f ` set xs \<Longrightarrow> filter (\<lambda>y. f y = k) xs = []"
  by (induction xs) auto

lemma filter_key_unique:
  "distinct (map f xs) \<Longrightarrow> x \<in> set xs \<Longrightarrow> filter (\<lambda>y. f y = f x) xs = [x]"
proof (induction xs)
  case Nil
  then show ?case by simp
next
  case (Cons a xs)
  show ?case
  proof (cases "a = x")
    case True
    with Cons.prems have "f x \<notin> f ` set xs" by auto
    with True show ?thesis by (simp add: filter_key_absent)
  next
    case False
    with Cons.prems have "x \<in> set xs" and "f a \<noteq> f x" by auto
    with Cons show ?thesis by simp
  qed
qed

lemma delete_discussion_missing:
  assumes "did \<notin> disc_id ` set (community_discussions db)"
      and "cb_discussion_id b = Some did"
  shows "delete_discussion k rt db userId b = (respond 404 (ErrorMsg ''Discussion not found''), db)"
  using assms by (simp add: delete_discussion_def filter_key_absent)

lemma delete_discussion_found:
  assumes "distinct (map disc_id (community_discussions db))"
      and "distinct (map comm_id (communities db))"
      and "d \<in> set (community_discussions db)" and "disc_id d = did"
      and "cb_discussion_id b = Some did"
  shows "delete_discussion k rt db userId b =
     (if disc_user d = userId
         \<or> (\<exists>c \<in> set (communities db). comm_id c = disc_community d \<and> comm_created_by c = userId)
      then (respond 200 Success,
            db\<lparr>community_discussions := filter (\<lambda>x. disc_id x \<noteq> did) (community_discussions db)\<rparr>)
      else (respond 403 (ErrorMsg ''Not authorized to delete this discussion''), db))"
proof -
  have fd: "filter (\<lambda>x. disc_id x = did) (community_discussions db) = [d]"
    using filter_key_unique [OF assms(1) assms(3)] assms(4) by simp
  show ?thesis
  proof (cases "disc_community d \<in> comm_id ` set (communities db)")
    case False
    then have fe: "filter (\<lambda>c. comm_id c = disc_community d) (communities db) = []"
      by (rule filter_key_absent)
    from False
    have nex: "(\<exists>c \<in> set (communities db). comm_id c = disc_community d \<and> comm_created_by c = userId) = False"
      by force
    show ?thesis
      by (simp add: delete_discussion_def Let_def assms(5) fd fe nex)
  next
    case True
    then obtain c where c: "c \<in> set (communities db)" "comm_id c = disc_community d" by auto
    have fc: "filter (\<lambda>x. comm_id x = disc_community d) (communities db) = [c]"
      using filter_key_unique [OF assms(2) c(1)] c(2) by simp
    have uniq: "\<And>c'. c' \<in> set (communities db) \<Longrightarrow> comm_id c' = disc_community d \<Longrightarrow> c' = c"
    proof -
      fix c' assume "c' \<in> set (communities db)" "comm_id c' = disc_community d"
      then have "c' \<in> set (filter (\<lambda>x. comm_id x = disc_community d) (communities db))" by simp
      with fc show "c' = c" by simp
    qed
    have ex: "(\<exists>c' \<in> set (communities db). comm_id c' = disc_community d \<and> comm_created_by c' = userId)
                \<longleftrightarrow> comm_created_by c = userId"
      using c uniq by blast
    show ?thesis
      by (simp add: delete_discussion_def Let_def assms(5) fd fc ex)
  qed
qed

text \<open>
  C10. A delete_discussion request with a valid session and a discussion
  identifier: when no discussion has that identifier the answer is 404 and
  nothing changes; when one has, it is deleted (answer 200) if the caller owns
  it or created its community, and otherwise the answer is 403 and every table,
  the discussion row included, is unchanged.
\<close>

theorem delete_discussion_authorization:
  assumes "validate_session (rt_now rt) (cm_sessions db) t = Some userId" and "t \<noteq> []"
      and "cb_action b = Some ''delete_discussion''" and "cb_discussion_id b = Some did"
      and "distinct (map disc_id (community_discussions db))"
      and "distinct (map comm_id (communities db))"
  shows "(did \<notin> disc_id ` set (community_discussions db) \<longrightarrow>
            status (fst (manage_community k rt db (Some t) (Some b))) = 404
          \<and> snd (manage_community k rt db (Some t) (Some b)) = db)
       \<and> (\<forall>d \<in> set (community_discussions db). disc_id d = did \<longrightarrow>
            (if disc_user d = userId
                \<or> (\<exists>c \<in> set (communities db). comm_id c = disc_community d \<and> comm_created_by c = userId)
             then status (fst (manage_community k rt db (Some t) (Some b))) = 200
                \<and> snd (manage_community k rt db (Some t) (Some b)) =
                    db\<lparr>community_discussions := filter (\<lambda>x. disc_id x \<noteq> did) (community_discussions db)\<rparr>
                \<and> d \<notin> set (community_discussions (snd (manage_community k rt db (Some t) (Some b))))
             else status (fst (manage_community k rt db (Some t) (Some b))) = 403
                \<and> snd (manage_community k rt db (Some t) (Some b)) = db))"
proof -
  have m: "manage_community k rt db (Some t) (Some b) = delete_discussion k rt db userId b"
    using assms(1,2,3) by (simp add: manage_community_def or_null_def)
  show ?thesis
  proof (intro conjI impI ballI)
    assume "did \<notin> disc_id ` set (community_discussions db)"
    from delete_discussion_missing [OF this assms(4)]
    show "status (fst (manage_community k rt db (Some t) (Some b))) = 404"
      and "snd (manage_community k rt db (Some t) (Some b)) = db"
      by (simp_all add: m respond_def)
  next
    fix d assume d: "d \<in> set (community_discussions db)" "disc_id d = did"
    from delete_discussion_found [OF assms(5) assms(6) d assms(4)] d(2)
    show "if disc_user d = userId
                \<or> (\<exists>c \<in> set (communities db). comm_id c = disc_community d \<and> comm_created_by c = userId)
             then status (fst (manage_community k rt db (Some t) (Some b))) = 200
                \<and> snd (manage_community k rt db (Some t) (Some b)) =
                    db\<lparr>community_discussions := filter (\<lambda>x. disc_id x \<noteq> did) (community_discussions db)\<rparr>
                \<and> d \<notin> set (community_discussions (snd (manage_community k rt db (Some t) (Some b))))
             else status (fst (manage_community k rt db (Some t) (Some b))) = 403
                \<and> snd (manage_community k rt db (Some t) (Some b)) = db"
      by (simp add: m respond_def)
  qed
qed

theorem delete_discussion_authorization_witness:
  "status (fst (manage_community demo_constraints demo_runtime demo_community_store
                  (Some ''tok-ravi'') (Some (delete_discussion_body 6)))) = 200
   \<and> community_discussions (snd (manage_community demo_constraints demo_runtime demo_community_store
                  (Some ''tok-ravi'') (Some (delete_discussion_body 6)))) =
       [\<lparr>disc_id = 5, disc_user = 1, disc_community = 10, disc_content = ''hello''\<rparr>]
   \<and> status (fst (manage_community demo_constraints demo_runtime demo_community_store
                  (Some ''tok-asha'') (Some (delete_discussion_body 6)))) = 403
   \<and> snd (manage_community demo_constraints demo_runtime demo_community_store
                  (Some ''tok-asha'') (Some (delete_discussion_body 6))) = demo_community_store
   \<and> status (fst (manage_community demo_constraints demo_runtime demo_community_store
                  (Some ''tok-asha'') (Some (delete_discussion_body 99)))) = 404"
proof -
  have ravi: "validate_session (rt_now demo_runtime) (cm_sessions demo_community_store) ''tok-ravi'' = Some 2"
    by (simp add: validate_session_def demo_runtime_def demo_community_store_def)
  have asha: "validate_session (rt_now demo_runtime) (cm_sessions demo_community_store) ''tok-asha'' = Some 1"
    by (simp add: validate_session_def demo_runtime_def demo_community_store_def)
  have dd: "distinct (map disc_id (community_discussions demo_community_store))"
    by (simp add: demo_community_store_def)
  have dc: "distinct (map comm_id (communities demo_community_store))"
    by (simp add: demo_community_store_def)
  have a: "cb_action (delete_discussion_body n) = Some ''delete_discussion''"
    and i: "cb_discussion_id (delete_discussion_body n) = Some n" for n
    by (simp_all add: delete_discussion_body_def)
  have 1: "status (fst (manage_community demo_constraints demo_runtime demo_community_store
                  (Some ''tok-ravi'') (Some (delete_discussion_body 6)))) = 200
     \<and> community_discussions (snd (manage_community demo_constraints demo_runtime demo_community_store
                  (Some ''tok-ravi'') (Some (delete_discussion_body 6)))) =
       [\<lparr>disc_id = 5, disc_user = 1, disc_community = 10, disc_content = ''hello''\<rparr>]"
    using delete_discussion_authorization [OF ravi _ a i dd dc, of 6 demo_constraints]
    by (simp add: demo_community_store_def)
  have 2: "status (fst (manage_community demo_constraints demo_runtime demo_community_store
                  (Some ''tok-asha'') (Some (delete_discussion_body 6)))) = 403
     \<and> snd (manage_community demo_constraints demo_runtime demo_community_store
                  (Some ''tok-asha'') (Some (delete_discussion_body 6))) = demo_community_store"
    using delete_discussion_authorization [OF asha _ a i dd dc, of 6 demo_constraints]
    by (simp add: demo_community_store_def)
  have 3: "status (fst (manage_community demo_constraints demo_runtime demo_community_store
                  (Some ''tok-asha'') (Some (delete_discussion_body 99)))) = 404"
    using delete_discussion_authorization [OF asha _ a i dd dc, of 99 demo_constraints]
    by (simp add: demo_community_store_def)
  from 1 2 3 show ?thesis by simp
qed

subsection \<open>Refreshing a session\<close>

lemma filter_unique_match:
  assumes "distinct (map f xs)" and "x \<in> set xs" and "P x" and "\<And>y. P y \<Longrightarrow> f y = f x"
  shows "filter P xs = [x]"
proof -
  have "filter P xs = filter P (filter (\<lambda>y. f y = f x) xs)"
    using assms(4) by (auto intro: filter_cong)
  also have "\<dots> = filter P [x]"
    using filter_key_unique [OF assms(1) assms(2)] by simp
  also have "\<dots> = [x]" using assms(3) by simp
  finally show ?thesis .
qed

lemma refresh_session_hit:
  assumes "distinct (map sess_token ss)"
      and "s \<in> set ss" and "sess_token s = tok" and "sess_active s" and "now < sess_expires s"
  shows "refresh_session now ss tok =
           Inr (True, map (\<lambda>r. if sess_token r = tok
                                then r\<lparr>sess_expires := now + thirty_days, sess_updated := now\<rparr>
                                else r) ss)"
proof -
  have m: "refresh_matches now tok s"
    using assms(3,4,5) by (simp add: refresh_matches_def)
  have f: "filter (refresh_matches now tok) ss = [s]"
    using assms(1) assms(2) m
    by (rule filter_unique_match [where f = sess_token and P = "refresh_matches now tok"])
       (simp add: refresh_matches_def assms(3))
  have only: "r = s" if "r \<in> set ss" "sess_token r = tok" for r
  proof -
    from that assms(3) have "r \<in> set (filter (\<lambda>y. sess_token y = sess_token s) ss)" by simp
    with filter_key_unique [OF assms(1) assms(2)] show ?thesis by simp
  qed
  have "map (\<lambda>r. if refresh_matches now tok r
                  then r\<lparr>sess_expires := now + thirty_days, sess_updated := now\<rparr> else r) ss
      = map (\<lambda>r. if sess_token r = tok
                  then r\<lparr>sess_expires := now + thirty_days, sess_updated := now\<rparr> else r) ss"
  proof (rule map_cong [OF refl])
    fix r assume "r \<in> set ss"
    then have "refresh_matches now tok r \<longleftrightarrow> sess_token r = tok"
      using only [of r] m by (auto simp: refresh_matches_def)
    then show "(if refresh_matches now tok r
                then r\<lparr>sess_expires := now + thirty_days, sess_updated := now\<rparr> else r)
             = (if sess_token r = tok
                then r\<lparr>sess_expires := now + thirty_days, sess_updated := now\<rparr> else r)"
      by simp
  qed
  with f show ?thesis by (simp add: refresh_session_def)
qed

lemma refresh_session_miss:
  assumes "\<not> (\<exists>s \<in> set ss. sess_token s = tok \<and> sess_active s \<and> now < sess_expires s)"
  shows "refresh_session now ss tok = Inr (False, ss)"
proof -
  have "filter (refresh_matches now tok) ss = []"
    using assms by (auto simp: filter_empty_conv refresh_matches_def)
  then show ?thesis by (simp add: refresh_session_def)
qed

text \<open>
  C3. On a session table with unique tokens, \<open>refresh_session\<close> returns true
  exactly when a row with the token exists that is active and whose expiry is
  strictly later than now, and it then sets the expiry of the row with that
  token to now + 30 days (and its update time to now), leaving the other rows
  as they were; in every other case it returns false and the table is
  unchanged.
\<close>

theorem refresh_session_correct:
  assumes "distinct (map sess_token ss)"
  shows "if (\<exists>s \<in> set ss. sess_token s = tok \<and> sess_active s \<and> now < sess_expires s)
         then refresh_session now ss tok =
                Inr (True, map (\<lambda>r. if sess_token r = tok
                                     then r\<lparr>sess_expires := now + thirty_days, sess_updated := now\<rparr>
                                     else r) ss)
         else refresh_session now ss tok = Inr (False, ss)"
proof (cases "\<exists>s \<in> set ss. sess_token s = tok \<and> sess_active s \<and> now < sess_expires s")
  case True
  then obtain s where "s \<in> set ss" "sess_token s = tok" "sess_active s" "now < sess_expires s"
    by blast
  from refresh_session_hit [OF assms this] True show ?thesis by simp
next
  case False
  from refresh_session_miss [OF this] False show ?thesis by simp
qed

theorem refresh_session_correct_witness:
  "refresh_session 1000 (cm_sessions demo_community_store) ''tok-ravi'' =
     Inr (True,
        [\<lparr>sess_user = 1, sess_token = ''tok-asha'', sess_expires = 5000, sess_active = True, sess_updated = 0\<rparr>,
         \<lparr>sess_user = 2, sess_token = ''tok-ravi'', sess_expires = 1000 + thirty_days, sess_active = True, sess_updated = 1000\<rparr>,
         \<lparr>sess_user = 3, sess_token = ''tok-mini'', sess_expires = 5000, sess_active = True, sess_updated = 0\<rparr>,
         \<lparr>sess_user = 3, sess_token = ''tok-stale'', sess_expires = 5000, sess_active = False, sess_updated = 0\<rparr>])
   \<and> refresh_session 1000 (cm_sessions demo_community_store) ''tok-stale'' =
       Inr (False, cm_sessions demo_community_store)
   \<and> refresh_session 5000 (cm_sessions demo_community_store) ''tok-ravi'' =
       Inr (False, cm_sessions demo_community_store)
   \<and> refresh_session 1000 (cm_sessions demo_community_store) ''tok-none'' =
       Inr (False, cm_sessions demo_community_store)"
proof -
  have d: "distinct (map sess_token (cm_sessions demo_community_store))"
    by (simp add: demo_community_store_def)
  show ?thesis
    using refresh_session_correct [OF d, of "''tok-ravi''" 1000]
          refresh_session_correct [OF d, of "''tok-stale''" 1000]
          refresh_session_correct [OF d, of "''tok-ravi''" 5000]
          refresh_session_correct [OF d, of "''tok-none''" 1000]
    by (simp add: demo_community_store_def)
qed

subsection \<open>Letter case of usernames\<close>

lemma char_toLowerCase_idem: "char_toLowerCase (char_toLowerCase c) = char_toLowerCase c"
  by (simp add: char_toLowerCase_def)

lemma toLowerCase_idem: "toLowerCase (toLowerCase s) = toLowerCase s"
  by (simp add: toLowerCase_def char_toLowerCase_idem)

lemma username_unused_no_exact:
  assumes "username_unused u db"
  shows "filter (\<lambda>r. prof_username r = Some (toLowerCase u)) (profiles db) = []"
proof -
  have "prof_username r \<noteq> Some (toLowerCase u)" if "r \<in> set (profiles db)" for r
  proof
    assume "prof_username r = Some (toLowerCase u)"
    then have "username_clash (prof_username r) (Some u)"
      by (simp add: username_clash_def toLowerCase_idem)
    with that assms show False
      by (auto simp: username_unused_def list_ex_iff)
  qed
  then show ?thesis by (simp add: filter_empty_conv)
qed

subsection \<open>Registration step by step\<close>

lemma mobile_auth_signup:
  "m \<noteq> [] \<Longrightarrow> p \<noteq> [] \<Longrightarrow>
   mobile_auth sha rt db (signup_body m p f u) = signup sha rt db m p (Some f) (Some u)"
  by (simp add: mobile_auth_def signup_body_def)

lemma mobile_auth_signin:
  "m \<noteq> [] \<Longrightarrow> p \<noteq> [] \<Longrightarrow>
   mobile_auth sha rt db (signin_body m p) = signin sha rt db m p"
  by (simp add: mobile_auth_def signin_body_def)

lemma usernameRegex_nonempty: "usernameRegex_test u \<Longrightarrow> u \<noteq> []"
  by (auto simp: usernameRegex_test_iff)

text \<open>
  After the validation and the two existence checks, the branch is the three
  insertions with the compensation.
\<close>

lemma signup_after_checks:
  assumes "f \<noteq> []" and "usernameRegex_test u"
      and "filter (\<lambda>c. cred_mobile c = m) (credentials db) = []"
      and "filter (\<lambda>r. prof_username r = Some (toLowerCase u)) (profiles db) = []"
  shows "signup sha rt db m p (Some f) (Some u) =
     (case insert_credential rt m (hashPassword sha p) (credentials db) of
        Inl credError \<Rightarrow> (respond 500 (ErrorMsg ''Failed to create account''), db)
      | Inr (cred, cs) \<Rightarrow>
         (case insert_profile \<lparr>prof_id = cred_id cred, prof_full_name = f, prof_mobile = m,
                               prof_username = Some (toLowerCase u), prof_online = False\<rparr>
                             (profiles db) of
            Inl profileError \<Rightarrow>
              (respond 500 (ErrorMsg ''Failed to create profile''),
               db\<lparr>credentials := filter (\<lambda>c. cred_id c \<noteq> cred_id cred) cs\<rparr>)
          | Inr ps \<Rightarrow>
             (case insert_session rt (cred_id cred) (generateSessionToken rt)
                     (rt_now rt + thirty_days) (sessions db) of
                Inl sessionError \<Rightarrow>
                  (respond 500 (ErrorMsg ''Failed to create session''),
                   db\<lparr>credentials := cs, profiles := ps\<rparr>)
              | Inr ss \<Rightarrow>
                  (respond 200 (AuthSuccess \<lparr>uv_id = cred_id cred, uv_mobile = m,
                                             uv_full_name = Some f, uv_profile = None\<rparr>
                                            (generateSessionToken rt)),
                   db\<lparr>credentials := cs, profiles := ps, sessions := ss\<rparr>))))"
  using assms usernameRegex_nonempty [OF assms(2)]
  by (simp add: signup_def Let_def split: sum.splits prod.splits)

lemma insert_credential_fresh:
  assumes "rt_uuid rt \<notin> set (map cred_id cs)" and "m \<notin> set (map cred_mobile cs)"
  shows "insert_credential rt m h cs =
           Inr (\<lparr>cred_id = rt_uuid rt, cred_mobile = m, cred_hash = h\<rparr>,
                cs @ [\<lparr>cred_id = rt_uuid rt, cred_mobile = m, cred_hash = h\<rparr>])"
  using assms by (simp add: insert_credential_def Let_def)

lemma insert_credential_Inr:
  assumes "insert_credential rt m h cs = Inr (cred, cs')"
  shows "cred = \<lparr>cred_id = rt_uuid rt, cred_mobile = m, cred_hash = h\<rparr> \<and> cs' = cs @ [cred]
         \<and> rt_uuid rt \<notin> set (map cred_id cs) \<and> m \<notin> set (map cred_mobile cs)"
  using assms by (auto simp: insert_credential_def Let_def split: if_splits)

lemma filter_remove_appended:
  assumes "k \<notin> set (map f xs)" and "f x = k"
  shows "filter (\<lambda>y. f y \<noteq> k) (xs @ [x]) = xs"
proof -
  have "filter (\<lambda>y. f y \<noteq> k) xs = xs"
    using assms(1) by (auto simp: filter_id_conv)
  with assms(2) show ?thesis by simp
qed

text \<open>
  C5. When, in a registration that passed the validation and the existence
  checks, the credential row is inserted and the profile insertion then
  fails, the answer is the 500 profile failure and the tables are exactly
  those before the request: the credential row just created has been deleted,
  so every credential row left is one that was there before, and no profile
  row was added.
\<close>

theorem register_compensates_profile_failure:
  assumes "m \<noteq> []" and "p \<noteq> []" and "f \<noteq> []" and "usernameRegex_test u"
      and "filter (\<lambda>r. prof_username r = Some (toLowerCase u)) (profiles db) = []"
      and "insert_credential rt m (hashPassword sha p) (credentials db) = Inr (cred, cs)"
      and "insert_profile \<lparr>prof_id = cred_id cred, prof_full_name = f, prof_mobile = m,
                            prof_username = Some (toLowerCase u), prof_online = False\<rparr>
                          (profiles db) = Inl e"
  shows "mobile_auth sha rt db (signup_body m p f u) =
           (respond 500 (ErrorMsg ''Failed to create profile''), db)
       \<and> cred \<in> set cs
       \<and> cred \<notin> set (credentials (snd (mobile_auth sha rt db (signup_body m p f u))))"
proof -
  from insert_credential_Inr [OF assms(6)]
  have cred: "cred_id cred = rt_uuid rt" and cs: "cs = credentials db @ [cred]"
    and new: "rt_uuid rt \<notin> set (map cred_id (credentials db))"
    and mob: "m \<notin> set (map cred_mobile (credentials db))"
    by auto
  from mob have nomob: "filter (\<lambda>c. cred_mobile c = m) (credentials db) = []"
    by (auto simp: filter_empty_conv)
  have undone: "filter (\<lambda>c. cred_id c \<noteq> cred_id cred) cs = credentials db"
    unfolding cs cred using new cred by (intro filter_remove_appended) auto
  have "signup sha rt db m p (Some f) (Some u) =
          (respond 500 (ErrorMsg ''Failed to create profile''), db\<lparr>credentials := credentials db\<rparr>)"
    using signup_after_checks [OF assms(3) assms(4) nomob assms(5), of sha rt p]
    by (simp add: assms(6) assms(7) undone)
  then have r: "mobile_auth sha rt db (signup_body m p f u) =
          (respond 500 (ErrorMsg ''Failed to create profile''), db)"
    using assms(1,2) by (simp add: mobile_auth_signup)
  have "cred \<notin> set (credentials db)"
  proof
    assume "cred \<in> set (credentials db)"
    then have "cred_id cred \<in> cred_id ` set (credentials db)" by (rule imageI)
    with new cred show False by simp
  qed
  with r cs show ?thesis by simp
qed

theorem register_compensates_profile_failure_witness:
  "mobile_auth demo_digest demo_runtime demo_store
     (signup_body ''9000000002'' ''pw-asha'' ''Asha'' ''ravi_k'') =
     (respond 500 (ErrorMsg ''Failed to create profile''), demo_store)
   \<and> new_credential demo_digest demo_runtime ''9000000002'' ''pw-asha''
       \<notin> set (credentials (snd (mobile_auth demo_digest demo_runtime demo_store
                                   (signup_body ''9000000002'' ''pw-asha'' ''Asha'' ''ravi_k''))))"
proof -
  have re: "usernameRegex_test ''ravi_k''"
    by (simp add: usernameRegex_test_iff allowed_chars_def)
  have lc: "toLowerCase ''ravi_k'' = ''ravi_k''" "toLowerCase ''Ravi_K'' = ''ravi_k''"
    by code_simp+
  have pre: "filter (\<lambda>r. prof_username r = Some (toLowerCase ''ravi_k'')) (profiles demo_store) = []"
    by (simp add: demo_store_def lc)
  have c: "insert_credential demo_runtime ''9000000002'' (hashPassword demo_digest ''pw-asha'')
             (credentials demo_store) =
           Inr (new_credential demo_digest demo_runtime ''9000000002'' ''pw-asha'',
                credentials demo_store @ [new_credential demo_digest demo_runtime ''9000000002'' ''pw-asha''])"
    by (simp add: insert_credential_def new_credential_def demo_store_def demo_runtime_def Let_def)
  have pf: "insert_profile
              \<lparr>prof_id = cred_id (new_credential demo_digest demo_runtime ''9000000002'' ''pw-asha''),
               prof_full_name = ''Asha'', prof_mobile = ''9000000002'',
               prof_username = Some (toLowerCase ''ravi_k''), prof_online = False\<rparr>
              (profiles demo_store) = Inl UniqueViolation"
    by (simp add: insert_profile_def demo_store_def username_clash_def lc)
  have "''9000000002'' \<noteq> []" and "''pw-asha'' \<noteq> []" and "''Asha'' \<noteq> []"
    by simp_all
  from register_compensates_profile_failure [OF this re pre c pf]
  show ?thesis by blast
qed

subsection \<open>Registration succeeds once\<close>

lemma signup_fresh:
  assumes "f \<noteq> []" and "usernameRegex_test u"
      and "mobile_unused m db" and "username_unused u db"
      and "fresh_uuid rt db" and "fresh_token rt db"
  shows "signup sha rt db m p (Some f) (Some u) =
           (respond 200 (AuthSuccess \<lparr>uv_id = rt_uuid rt, uv_mobile = m,
                                      uv_full_name = Some f, uv_profile = None\<rparr>
                                     (generateSessionToken rt)),
            registered sha rt db m p f u)"
proof -
  from assms(3) have nomob: "filter (\<lambda>c. cred_mobile c = m) (credentials db) = []"
    by (auto simp: mobile_unused_def filter_empty_conv)
  note noname = username_unused_no_exact [OF assms(4)]
  have ic: "insert_credential rt m (hashPassword sha p) (credentials db) =
              Inr (new_credential sha rt m p, credentials db @ [new_credential sha rt m p])"
    using assms(3,5)
    by (simp add: insert_credential_def new_credential_def mobile_unused_def fresh_uuid_def Let_def)
  have cid: "cred_id (new_credential sha rt m p) = rt_uuid rt"
    by (simp add: new_credential_def)
  have ip: "insert_profile \<lparr>prof_id = rt_uuid rt, prof_full_name = f,
                             prof_mobile = m, prof_username = Some (toLowerCase u),
                             prof_online = False\<rparr> (profiles db) =
              Inr (profiles db @ [new_profile rt m f u])"
    using assms(4,5)
    by (auto simp: insert_profile_def new_profile_def username_unused_def
          fresh_uuid_def username_clash_def list_ex_iff toLowerCase_idem split: option.splits)
  have iss: "insert_session rt (rt_uuid rt) (generateSessionToken rt)
              (rt_now rt + thirty_days) (sessions db) =
              Inr (sessions db @ [new_session rt (rt_uuid rt)])"
    using assms(6)
    by (simp add: insert_session_def new_session_def fresh_token_def)
  show ?thesis
    using signup_after_checks [OF assms(1) assms(2) nomob noname, of sha rt p]
    by (simp add: ic cid ip iss registered_def)
qed

lemma signup_mobile_conflict:
  assumes "f \<noteq> []" and "usernameRegex_test u"
      and "filter (\<lambda>c. cred_mobile c = m) (credentials db) = [c]"
  shows "signup sha rt db m p (Some f) (Some u) =
           (respond 400 (ErrorMsg ''This mobile number is already registered''), db)"
  using assms usernameRegex_nonempty [OF assms(2)]
  by (simp add: signup_def)

lemma signup_username_conflict:
  assumes "f \<noteq> []" and "usernameRegex_test u"
      and "filter (\<lambda>r. prof_username r = Some (toLowerCase u)) (profiles db) = [r]"
  shows "fst (signup sha rt db m p (Some f) (Some u)) \<in> ConflictError
       \<and> snd (signup sha rt db m p (Some f) (Some u)) = db"
  using assms usernameRegex_nonempty [OF assms(2)]
  by (simp add: signup_def ConflictError_def split: option.splits)

text \<open>A username that agrees with a valid one up to letter case is valid.\<close>

lemma of_char_toLowerCase:
  "(of_char (char_toLowerCase c) :: nat) =
     (if 65 \<le> (of_char c :: nat) \<and> (of_char c :: nat) \<le> 90 then of_char c + 32 else of_char c)"
  by (simp add: char_toLowerCase_def)

lemma allowed_chars_iff:
  "c \<in> allowed_chars \<longleftrightarrow>
     (97 \<le> (of_char c :: nat) \<and> (of_char c :: nat) \<le> 122)
   \<or> (65 \<le> (of_char c :: nat) \<and> (of_char c :: nat) \<le> 90)
   \<or> (48 \<le> (of_char c :: nat) \<and> (of_char c :: nat) \<le> 57)
   \<or> (of_char c :: nat) = 95"
proof -
  have "c = CHR ''_'' \<longleftrightarrow> (of_char c :: nat) = of_char CHR ''_''"
    by (simp only: of_char_eq_iff)
  then have "c = CHR ''_'' \<longleftrightarrow> (of_char c :: nat) = 95" by simp
  then show ?thesis
    unfolding class_member_usernameClass [symmetric] usernameClass_def by simp
qed

lemma allowed_chars_case:
  assumes "c \<in> allowed_chars" and "char_toLowerCase c' = char_toLowerCase c"
  shows "c' \<in> allowed_chars"
proof -
  from assms(2) have "(of_char (char_toLowerCase c') :: nat) = of_char (char_toLowerCase c)"
    by simp
  with assms(1) show ?thesis
    unfolding of_char_toLowerCase allowed_chars_iff by (auto split: if_splits)
qed

lemma usernameRegex_test_case:
  assumes "usernameRegex_test u" and "toLowerCase u' = toLowerCase u"
  shows "usernameRegex_test u'"
proof -
  from assms(2) have len: "length u' = length u"
    unfolding toLowerCase_def by (rule map_eq_imp_length_eq)
  have "c' \<in> allowed_chars" if "c' \<in> set u'" for c'
  proof -
    from that obtain i where i: "i < length u'" "u' ! i = c'"
      by (auto simp: in_set_conv_nth)
    from assms(2) have "map char_toLowerCase u' ! i = map char_toLowerCase u ! i"
      by (simp add: toLowerCase_def)
    with i len have eq: "char_toLowerCase c' = char_toLowerCase (u ! i)" by simp
    from assms(1) i len have "u ! i \<in> allowed_chars"
      by (auto simp: usernameRegex_test_iff)
    with eq show ?thesis by (rule allowed_chars_case [rotated])
  qed
  with assms(1) len show ?thesis
    by (auto simp: usernameRegex_test_iff)
qed

lemma registered_rows:
  "credentials (registered sha rt db m p f u) = credentials db @ [new_credential sha rt m p]"
  "profiles (registered sha rt db m p f u) = profiles db @ [new_profile rt m f u]"
  "sessions (registered sha rt db m p f u) = sessions db @ [new_session rt (rt_uuid rt)]"
  by (simp_all add: registered_def)

lemma registered_mobile_row:
  assumes "mobile_unused m db"
  shows "filter (\<lambda>c. cred_mobile c = m) (credentials (registered sha rt db m p f u)) =
           [new_credential sha rt m p]"
proof -
  from assms have "filter (\<lambda>c. cred_mobile c = m) (credentials db) = []"
    by (auto simp: mobile_unused_def filter_empty_conv)
  then show ?thesis by (simp add: registered_rows new_credential_def)
qed

lemma registered_username_row:
  assumes "username_unused u db" and "toLowerCase u' = toLowerCase u"
  shows "filter (\<lambda>r. prof_username r = Some (toLowerCase u')) (profiles (registered sha rt db m p f u)) =
           [new_profile rt m f u]"
  using username_unused_no_exact [OF assms(1)] assms(2)
  by (simp add: registered_rows new_profile_def)

text \<open>
  C6. A registration with non-empty fields, a username matching the pattern,
  a mobile number without a credential and a username that no profile has in
  any letter case succeeds, given that the generated identifier and the drawn
  token are not already stored. After it, a registration with the same mobile
  number, and a registration with the same username in any letter case, are
  answered with a conflict error of status 400, and they leave every table, so
  also the credentials and the profiles, as the first registration left them.
\<close>

theorem register_succeeds_once:
  assumes "m \<noteq> []" and "p \<noteq> []" and "f \<noteq> []" and "usernameRegex_test u"
      and "mobile_unused m db" and "username_unused u db"
      and "fresh_uuid rt db" and "fresh_token rt db"
  shows "is_success (fst (mobile_auth sha rt db (signup_body m p f u)))
       \<and> snd (mobile_auth sha rt db (signup_body m p f u)) = registered sha rt db m p f u
       \<and> (p' \<noteq> [] \<and> f' \<noteq> [] \<and> usernameRegex_test u' \<longrightarrow>
            fst (mobile_auth sha rt' (snd (mobile_auth sha rt db (signup_body m p f u)))
                   (signup_body m p' f' u')) \<in> ConflictError
          \<and> snd (mobile_auth sha rt' (snd (mobile_auth sha rt db (signup_body m p f u)))
                   (signup_body m p' f' u'))
              = snd (mobile_auth sha rt db (signup_body m p f u)))
       \<and> (m'' \<noteq> [] \<and> p'' \<noteq> [] \<and> f'' \<noteq> [] \<and> toLowerCase u'' = toLowerCase u \<longrightarrow>
            fst (mobile_auth sha rt'' (snd (mobile_auth sha rt db (signup_body m p f u)))
                   (signup_body m'' p'' f'' u'')) \<in> ConflictError
          \<and> snd (mobile_auth sha rt'' (snd (mobile_auth sha rt db (signup_body m p f u)))
                   (signup_body m'' p'' f'' u''))
              = snd (mobile_auth sha rt db (signup_body m p f u)))"
proof -
  let ?db1 = "registered sha rt db m p f u"
  have first: "mobile_auth sha rt db (signup_body m p f u) =
                 (respond 200 (AuthSuccess \<lparr>uv_id = rt_uuid rt, uv_mobile = m,
                                            uv_full_name = Some f, uv_profile = None\<rparr>
                                           (generateSessionToken rt)), ?db1)"
    using assms by (simp add: mobile_auth_signup signup_fresh)
  have ok: "is_success (fst (mobile_auth sha rt db (signup_body m p f u)))"
    by (simp add: first is_success_def respond_def)
  have same_mobile:
    "fst (mobile_auth sha rt' ?db1 (signup_body m p' f' u')) \<in> ConflictError
     \<and> snd (mobile_auth sha rt' ?db1 (signup_body m p' f' u')) = ?db1"
    if "p' \<noteq> [] \<and> f' \<noteq> [] \<and> usernameRegex_test u'"
  proof -
    from that assms(1)
    have "mobile_auth sha rt' ?db1 (signup_body m p' f' u') =
            (respond 400 (ErrorMsg ''This mobile number is already registered''), ?db1)"
      by (simp add: mobile_auth_signup
            signup_mobile_conflict [OF _ _ registered_mobile_row [OF assms(5)]])
    then show ?thesis by (simp add: ConflictError_def)
  qed
  have same_username:
    "fst (mobile_auth sha rt'' ?db1 (signup_body m'' p'' f'' u'')) \<in> ConflictError
     \<and> snd (mobile_auth sha rt'' ?db1 (signup_body m'' p'' f'' u'')) = ?db1"
    if h: "m'' \<noteq> [] \<and> p'' \<noteq> [] \<and> f'' \<noteq> [] \<and> toLowerCase u'' = toLowerCase u"
  proof -
    from h have lc: "toLowerCase u'' = toLowerCase u" by simp
    have re: "usernameRegex_test u''"
      by (rule usernameRegex_test_case [OF assms(4) lc])
    from h have nf: "f'' \<noteq> []" by simp
    from h have "mobile_auth sha rt'' ?db1 (signup_body m'' p'' f'' u'') =
                   signup sha rt'' ?db1 m'' p'' (Some f'') (Some u'')"
      by (simp add: mobile_auth_signup)
    with signup_username_conflict [OF nf re registered_username_row [OF assms(6) lc]]
    show ?thesis by simp
  qed
  from ok first same_mobile same_username show ?thesis by simp
qed

theorem register_succeeds_once_witness:
  "is_success (fst (mobile_auth demo_digest demo_runtime demo_store
                      (signup_body ''9000000002'' ''pw-asha'' ''Asha'' ''asha_01'')))
   \<and> fst (mobile_auth demo_digest later_runtime
            (registered demo_digest demo_runtime demo_store ''9000000002'' ''pw-asha'' ''Asha'' ''asha_01'')
            (signup_body ''9000000002'' ''pw-mini'' ''Mini'' ''mini_9'')) \<in> ConflictError
   \<and> fst (mobile_auth demo_digest later_runtime
            (registered demo_digest demo_runtime demo_store ''9000000002'' ''pw-asha'' ''Asha'' ''asha_01'')
            (signup_body ''9000000003'' ''pw-mini'' ''Mini'' ''ASHA_01'')) \<in> ConflictError
   \<and> snd (mobile_auth demo_digest later_runtime
            (registered demo_digest demo_runtime demo_store ''9000000002'' ''pw-asha'' ''Asha'' ''asha_01'')
            (signup_body ''9000000003'' ''pw-mini'' ''Mini'' ''ASHA_01''))
       = registered demo_digest demo_runtime demo_store ''9000000002'' ''pw-asha'' ''Asha'' ''asha_01''"
proof -
  have ne: "''9000000002'' \<noteq> []" "''pw-asha'' \<noteq> []" "''Asha'' \<noteq> []" by simp_all
  have re: "usernameRegex_test ''asha_01''" "usernameRegex_test ''mini_9''"
    by (simp_all add: usernameRegex_test_iff allowed_chars_def)
  have lc: "toLowerCase ''asha_01'' = ''asha_01''" "toLowerCase ''Ravi_K'' = ''ravi_k''"
           "toLowerCase ''ASHA_01'' = ''asha_01''"
    by code_simp+
  have mu: "mobile_unused ''9000000002'' demo_store"
    by (simp add: mobile_unused_def demo_store_def)
  have uu: "username_unused ''asha_01'' demo_store"
    by (simp add: username_unused_def demo_store_def username_clash_def lc)
  have fu: "fresh_uuid demo_runtime demo_store"
    by (simp add: fresh_uuid_def demo_store_def demo_runtime_def)
  have tok: "generateSessionToken demo_runtime =
               ''000102030405060708090a0b0c0d0e0f101112131415161718191a1b1c1d1e1f''"
    by code_simp
  have ft: "fresh_token demo_runtime demo_store"
    by (simp add: fresh_token_def tok demo_store_def)
  note w = register_succeeds_once
         [where sha = demo_digest and rt' = later_runtime and rt'' = later_runtime
            and p' = "''pw-mini''" and f' = "''Mini''" and u' = "''mini_9''"
            and m'' = "''9000000003''" and p'' = "''pw-mini''" and f'' = "''Mini''" and u'' = "''ASHA_01''",
          OF ne re(1) mu uu fu ft]
  from w have e: "snd (mobile_auth demo_digest demo_runtime demo_store
                         (signup_body ''9000000002'' ''pw-asha'' ''Asha'' ''asha_01''))
                  = registered demo_digest demo_runtime demo_store ''9000000002'' ''pw-asha'' ''Asha'' ''asha_01''"
    by blast
  from w [unfolded e] re(2) lc show ?thesis by simp
qed

subsection \<open>Authentication step by step\<close>

lemma signin_no_row:
  assumes "filter (\<lambda>c. cred_mobile c = m) (credentials db) = []"
  shows "signin sha rt db m p = (AuthError, db)"
  using assms by (simp add: signin_def AuthError_def)

lemma invalidate_tokens: "map sess_token (invalidate user ss) = map sess_token ss"
  by (induction ss) (simp_all add: invalidate_def)

lemma invalidate_token_set: "sess_token ` set (invalidate user ss) = sess_token ` set ss"
  using invalidate_tokens [of user ss, THEN arg_cong, of set] by simp

lemma signin_one_row:
  assumes "filter (\<lambda>c. cred_mobile c = m) (credentials db) = [c]"
  shows "signin sha rt db m p =
     (if hashPassword sha p \<noteq> cred_hash c then (AuthError, db)
      else if generateSessionToken rt \<in> set (map sess_token (sessions db))
      then (respond 500 (ErrorMsg ''Failed to create session''),
            db\<lparr>sessions := invalidate (cred_id c) (sessions db)\<rparr>)
      else (respond 200 (AuthSuccess
              (case data_of_single (single (filter (\<lambda>r. prof_id r = cred_id c) (profiles db))) of
                 None \<Rightarrow> \<lparr>uv_id = cred_id c, uv_mobile = m, uv_full_name = None, uv_profile = None\<rparr>
               | Some r \<Rightarrow> \<lparr>uv_id = prof_id r, uv_mobile = prof_mobile r,
                            uv_full_name = Some (prof_full_name r), uv_profile = Some r\<rparr>)
              (generateSessionToken rt)),
            db\<lparr>sessions := invalidate (cred_id c) (sessions db) @ [new_session rt (cred_id c)],
               profiles := map (\<lambda>r. if prof_id r = cred_id c then r\<lparr>prof_online := True\<rparr> else r)
                               (profiles db)\<rparr>))"
proof -
  have inv: "map (\<lambda>s. if sess_user s = cred_id c then s\<lparr>sess_active := False\<rparr> else s) (sessions db)
               = invalidate (cred_id c) (sessions db)"
    by (simp add: invalidate_def)
  show ?thesis
    using assms
    by (simp add: signin_def AuthError_def verifyPassword_def Let_def inv insert_session_def
          invalidate_token_set new_session_def)
qed

lemma signin_many_rows:
  assumes "filter (\<lambda>c. cred_mobile c = m) (credentials db) = c # c' # cs"
  shows "signin sha rt db m p = (AuthError, db)"
  using assms by (simp add: signin_def AuthError_def)

lemma single_profile_id:
  "data_of_single (single (filter (\<lambda>r. prof_id r = k) ps)) = Some r \<Longrightarrow> prof_id r = k"
proof -
  assume a: "data_of_single (single (filter (\<lambda>r. prof_id r = k) ps)) = Some r"
  then have "filter (\<lambda>r. prof_id r = k) ps = [r]"
    by (cases "filter (\<lambda>r. prof_id r = k) ps" rule: single.cases) simp_all
  then have "r \<in> set (filter (\<lambda>r. prof_id r = k) ps)" by simp
  then show ?thesis by simp
qed

lemma AuthError_not_success: "\<not> is_success AuthError"
  by (simp add: AuthError_def is_success_def respond_def)

text \<open>What a successful signin did.\<close>

lemma signin_success:
  assumes "signin sha rt db m p = (r, db')" and "is_success r"
  shows "\<exists>c v. c \<in> set (credentials db) \<and> cred_mobile c = m \<and> cred_hash c = hashPassword sha p
               \<and> body r = AuthSuccess v (generateSessionToken rt) \<and> uv_id v = cred_id c
               \<and> generateSessionToken rt \<notin> set (map sess_token (sessions db))
               \<and> sessions db' = invalidate (cred_id c) (sessions db) @ [new_session rt (cred_id c)]"
proof (cases "filter (\<lambda>c. cred_mobile c = m) (credentials db)" rule: single.cases)
  case 1
  from signin_no_row [OF this] assms AuthError_not_success show ?thesis by simp
next
  case (3 c c' cs)
  from signin_many_rows [OF this] assms AuthError_not_success show ?thesis by simp
next
  case (2 c)
  then have "c \<in> set (filter (\<lambda>c. cred_mobile c = m) (credentials db))" by simp
  then have c: "c \<in> set (credentials db)" "cred_mobile c = m" by simp_all
  note s = signin_one_row [OF 2, of sha rt p]
  have h: "hashPassword sha p = cred_hash c"
    using s assms AuthError_not_success by (auto split: if_splits)
  have t: "generateSessionToken rt \<notin> set (map sess_token (sessions db))"
    using s assms h by (auto simp: is_success_def respond_def split: if_splits)
  let ?v = "case data_of_single (single (filter (\<lambda>r. prof_id r = cred_id c) (profiles db))) of
              None \<Rightarrow> \<lparr>uv_id = cred_id c, uv_mobile = m, uv_full_name = None, uv_profile = None\<rparr>
            | Some r \<Rightarrow> \<lparr>uv_id = prof_id r, uv_mobile = prof_mobile r,
                         uv_full_name = Some (prof_full_name r), uv_profile = Some r\<rparr>"
  have v: "uv_id ?v = cred_id c"
    by (auto split: option.splits dest: single_profile_id)
  from s h t assms(1)
  have b: "body r = AuthSuccess ?v (generateSessionToken rt)"
    and ss: "sessions db' = invalidate (cred_id c) (sessions db) @ [new_session rt (cred_id c)]"
    by (auto simp: respond_def)
  have "c \<in> set (credentials db) \<and> cred_mobile c = m \<and> cred_hash c = hashPassword sha p
          \<and> body r = AuthSuccess ?v (generateSessionToken rt) \<and> uv_id ?v = cred_id c
          \<and> generateSessionToken rt \<notin> set (map sess_token (sessions db))
          \<and> sessions db' = invalidate (cred_id c) (sessions db) @ [new_session rt (cred_id c)]"
    using c h t v b ss by simp
  then show ?thesis
    by - (rule exI [of _ c], rule exI [of _ "?v"])
qed

lemma filter_key_at_most_one:
  assumes "distinct (map f xs)"
  shows "filter (\<lambda>y. f y = k) xs = [] \<or> (\<exists>x. filter (\<lambda>y. f y = k) xs = [x])"
proof (cases "k \<in> f ` set xs")
  case False
  then show ?thesis by (simp add: filter_key_absent)
next
  case True
  then obtain x where "x \<in> set xs" "f x = k" by auto
  with filter_key_unique [OF assms, of x] show ?thesis by auto
qed

lemma credential_matches_none:
  assumes "filter (\<lambda>c. cred_mobile c = m) (credentials db) = []"
  shows "\<not> credential_matches sha db m p"
proof
  assume "credential_matches sha db m p"
  then obtain c where "c \<in> set (credentials db)" "cred_mobile c = m"
    by (auto simp: credential_matches_def list_ex_iff)
  then have "c \<in> set (filter (\<lambda>c. cred_mobile c = m) (credentials db))" by simp
  with assms show False by simp
qed

lemma credential_matches_one:
  assumes "filter (\<lambda>c. cred_mobile c = m) (credentials db) = [c]"
  shows "credential_matches sha db m p \<longleftrightarrow> cred_hash c = hashPassword sha p"
proof
  assume "credential_matches sha db m p"
  then obtain c' where c': "c' \<in> set (credentials db)" "cred_mobile c' = m"
      "cred_hash c' = hashPassword sha p"
    by (auto simp: credential_matches_def list_ex_iff)
  then have "c' \<in> set (filter (\<lambda>c. cred_mobile c = m) (credentials db))" by simp
  with assms have "c' = c" by simp
  with c' show "cred_hash c = hashPassword sha p" by simp
next
  assume h: "cred_hash c = hashPassword sha p"
  have "c \<in> set (filter (\<lambda>c. cred_mobile c = m) (credentials db))"
    using assms by simp
  then have "c \<in> set (credentials db)" "cred_mobile c = m" by simp_all
  with h show "credential_matches sha db m p"
    by (auto simp: credential_matches_def list_ex_iff)
qed

lemma session_failure_not_AuthError:
  "respond 500 (ErrorMsg ''Failed to create session'') \<noteq> AuthError"
  "\<not> is_success (respond 500 (ErrorMsg ''Failed to create session''))"
  by (simp_all add: AuthError_def respond_def is_success_def)

lemma success_not_AuthError: "respond 200 (AuthSuccess v t) \<noteq> AuthError"
  "is_success (respond 200 (AuthSuccess v t))"
  by (simp_all add: AuthError_def respond_def is_success_def)

lemma mobile_auth_required_fields:
  assumes "mobile_number b = None \<or> mobile_number b = Some []
             \<or> password b = None \<or> password b = Some []"
  shows "mobile_auth sha rt db b =
           (respond 400 (ErrorMsg ''Mobile number and password are required''), db)"
  using assms by (auto simp: mobile_auth_def split: option.splits)

lemma mobile_auth_signin_fields:
  assumes "action b = Some ''signin''" and "mobile_number b = Some m" and "password b = Some p"
      and "m \<noteq> []" and "p \<noteq> []"
  shows "mobile_auth sha rt db b = signin sha rt db m p"
  using assms by (simp add: mobile_auth_def)

lemma signin_credential_matches:
  assumes "distinct (map cred_mobile (credentials db))"
  shows "(fst (signin sha rt db m p) = AuthError \<longleftrightarrow> \<not> credential_matches sha db m p)
       \<and> (\<not> credential_matches sha db m p \<longrightarrow> snd (signin sha rt db m p) = db)
       \<and> (is_success (fst (signin sha rt db m p)) \<longrightarrow> credential_matches sha db m p)
       \<and> (fresh_token rt db \<longrightarrow>
            (is_success (fst (signin sha rt db m p)) \<longleftrightarrow> credential_matches sha db m p))
       \<and> (credential_matches sha db m p \<and> \<not> fresh_token rt db \<longrightarrow>
            fst (signin sha rt db m p) = respond 500 (ErrorMsg ''Failed to create session''))"
proof -
  from filter_key_at_most_one [OF assms, of m]
  consider (none) "filter (\<lambda>c. cred_mobile c = m) (credentials db) = []"
    | (one) c where "filter (\<lambda>c. cred_mobile c = m) (credentials db) = [c]"
    by blast
  then show ?thesis
  proof cases
    case none
    from signin_no_row [OF none, of sha rt p] credential_matches_none [OF none, of sha p]
    show ?thesis by (simp add: AuthError_not_success)
  next
    case one
    note s = signin_one_row [OF one, of sha rt p]
    note cm = credential_matches_one [OF one, of sha p]
    show ?thesis
    proof (cases "hashPassword sha p = cred_hash c")
      case False
      with s cm show ?thesis by (auto simp: AuthError_not_success)
    next
      case True
      then have m: "credential_matches sha db m p" using cm by simp
      show ?thesis
      proof (cases "fresh_token rt db")
        case True
        with s \<open>hashPassword sha p = cred_hash c\<close> m show ?thesis
          by (simp add: fresh_token_def success_not_AuthError)
      next
        case False
        with s \<open>hashPassword sha p = cred_hash c\<close> m show ?thesis
          by (simp add: fresh_token_def session_failure_not_AuthError)
      qed
    qed
  qed
qed

text \<open>
  C2, amended. A request whose mobile number or password is missing or empty
  is answered 400 "Mobile number and password are required", whatever its
  action and whatever the credentials stored, and nothing is written. For a
  signin request with a non-empty mobile number and a non-empty password, on
  a credential table with unique mobile numbers: the answer is the generic
  authentication error (401, one message) exactly when no credential row
  exists for the mobile number or the digest of the password differs from the
  stored digest, and then nothing is written; a success implies a matching
  credential; and when the drawn token is not already stored the request
  succeeds exactly when a credential with an equal digest exists (with a stored
  token the answer is the 500 session failure).
\<close>

theorem authenticate_iff_credential_matches:
  "((mobile_number b = None \<or> mobile_number b = Some []
       \<or> password b = None \<or> password b = Some [])
     \<longrightarrow> mobile_auth sha rt db b =
           (respond 400 (ErrorMsg ''Mobile number and password are required''), db))
   \<and> (action b = Some ''signin'' \<and> mobile_number b = Some m \<and> password b = Some p
       \<and> m \<noteq> [] \<and> p \<noteq> [] \<and> distinct (map cred_mobile (credentials db))
     \<longrightarrow> (fst (mobile_auth sha rt db b) = AuthError \<longleftrightarrow> \<not> credential_matches sha db m p)
         \<and> (\<not> credential_matches sha db m p \<longrightarrow> snd (mobile_auth sha rt db b) = db)
         \<and> (is_success (fst (mobile_auth sha rt db b)) \<longrightarrow> credential_matches sha db m p)
         \<and> (fresh_token rt db \<longrightarrow>
              (is_success (fst (mobile_auth sha rt db b)) \<longleftrightarrow> credential_matches sha db m p))
         \<and> (credential_matches sha db m p \<and> \<not> fresh_token rt db \<longrightarrow>
              fst (mobile_auth sha rt db b) = respond 500 (ErrorMsg ''Failed to create session'')))"
proof (rule conjI; rule impI)
  assume "mobile_number b = None \<or> mobile_number b = Some []
            \<or> password b = None \<or> password b = Some []"
  then show "mobile_auth sha rt db b =
               (respond 400 (ErrorMsg ''Mobile number and password are required''), db)"
    by (rule mobile_auth_required_fields)
next
  assume a: "action b = Some ''signin'' \<and> mobile_number b = Some m \<and> password b = Some p
       \<and> m \<noteq> [] \<and> p \<noteq> [] \<and> distinct (map cred_mobile (credentials db))"
  then have ma: "mobile_auth sha rt db b = signin sha rt db m p"
    by (intro mobile_auth_signin_fields) simp_all
  from a have d: "distinct (map cred_mobile (credentials db))" by simp
  show "(fst (mobile_auth sha rt db b) = AuthError \<longleftrightarrow> \<not> credential_matches sha db m p)
         \<and> (\<not> credential_matches sha db m p \<longrightarrow> snd (mobile_auth sha rt db b) = db)
         \<and> (is_success (fst (mobile_auth sha rt db b)) \<longrightarrow> credential_matches sha db m p)
         \<and> (fresh_token rt db \<longrightarrow>
              (is_success (fst (mobile_auth sha rt db b)) \<longleftrightarrow> credential_matches sha db m p))
         \<and> (credential_matches sha db m p \<and> \<not> fresh_token rt db \<longrightarrow>
              fst (mobile_auth sha rt db b) = respond 500 (ErrorMsg ''Failed to create session''))"
    unfolding ma by (rule signin_credential_matches [OF d])
qed

theorem authenticate_iff_credential_matches_witness:
  "mobile_auth demo_digest demo_runtime demo_store
     ((signin_body ''9000000001'' ''pw-ravi'')\<lparr>password := None\<rparr>)
     = (respond 400 (ErrorMsg ''Mobile number and password are required''), demo_store)
   \<and> mobile_auth demo_digest demo_runtime demo_store (signin_body [] ''pw-ravi'')
     = (respond 400 (ErrorMsg ''Mobile number and password are required''), demo_store)
   \<and> fst (mobile_auth demo_digest demo_runtime demo_store (signin_body ''9000000001'' ''pw-ravi''))
     \<noteq> AuthError
   \<and> is_success (fst (mobile_auth demo_digest demo_runtime demo_store
                         (signin_body ''9000000001'' ''pw-ravi'')))
   \<and> mobile_auth demo_digest demo_runtime demo_store (signin_body ''9000000001'' ''pw-asha'')
       = (AuthError, demo_store)
   \<and> mobile_auth demo_digest demo_runtime demo_store (signin_body ''9000000009'' ''pw-ravi'')
       = (AuthError, demo_store)"
proof -
  have sb: "action (signin_body x y) = Some ''signin'' \<and> mobile_number (signin_body x y) = Some x
            \<and> password (signin_body x y) = Some y" for x y
    by (simp add: signin_body_def)
  have d: "distinct (map cred_mobile (credentials demo_store))"
    by (simp add: demo_store_def)
  have tok: "generateSessionToken demo_runtime =
               ''000102030405060708090a0b0c0d0e0f101112131415161718191a1b1c1d1e1f''"
    by code_simp
  have ft: "fresh_token demo_runtime demo_store"
    by (simp add: fresh_token_def tok demo_store_def)
  have hne: "hashPassword demo_digest ''pw-ravi'' \<noteq> hashPassword demo_digest ''pw-asha''"
    by code_simp
  have yes: "credential_matches demo_digest demo_store ''9000000001'' ''pw-ravi''"
    by (simp add: credential_matches_def demo_store_def)
  have no1: "\<not> credential_matches demo_digest demo_store ''9000000001'' ''pw-asha''"
    using hne by (simp add: credential_matches_def demo_store_def)
  have no2: "\<not> credential_matches demo_digest demo_store ''9000000009'' ''pw-ravi''"
    by (simp add: credential_matches_def demo_store_def)
  have g1: "mobile_auth demo_digest demo_runtime demo_store
              ((signin_body ''9000000001'' ''pw-ravi'')\<lparr>password := None\<rparr>)
            = (respond 400 (ErrorMsg ''Mobile number and password are required''), demo_store)"
    using authenticate_iff_credential_matches
            [of "(signin_body ''9000000001'' ''pw-ravi'')\<lparr>password := None\<rparr>"
                demo_digest demo_runtime demo_store]
    by simp
  have g2: "mobile_auth demo_digest demo_runtime demo_store (signin_body [] ''pw-ravi'')
            = (respond 400 (ErrorMsg ''Mobile number and password are required''), demo_store)"
    using authenticate_iff_credential_matches
            [of "signin_body [] ''pw-ravi''" demo_digest demo_runtime demo_store]
    by (simp add: signin_body_def)
  from authenticate_iff_credential_matches
         [of "signin_body ''9000000001'' ''pw-ravi''" demo_digest demo_runtime demo_store
             "''9000000001''" "''pw-ravi''"]
       sb d yes ft
  have 1: "fst (mobile_auth demo_digest demo_runtime demo_store (signin_body ''9000000001'' ''pw-ravi''))
             \<noteq> AuthError
     \<and> is_success (fst (mobile_auth demo_digest demo_runtime demo_store
                         (signin_body ''9000000001'' ''pw-ravi'')))"
    by simp
  from authenticate_iff_credential_matches
         [of "signin_body ''9000000001'' ''pw-asha''" demo_digest demo_runtime demo_store
             "''9000000001''" "''pw-asha''"]
       sb d no1
  have "fst (mobile_auth demo_digest demo_runtime demo_store (signin_body ''9000000001'' ''pw-asha''))
          = AuthError
      \<and> snd (mobile_auth demo_digest demo_runtime demo_store (signin_body ''9000000001'' ''pw-asha''))
          = demo_store"
    by simp
  then have 2: "mobile_auth demo_digest demo_runtime demo_store (signin_body ''9000000001'' ''pw-asha'')
       = (AuthError, demo_store)"
    by (simp add: prod_eq_iff)
  from authenticate_iff_credential_matches
         [of "signin_body ''9000000009'' ''pw-ravi''" demo_digest demo_runtime demo_store
             "''9000000009''" "''pw-ravi''"]
       sb d no2
  have "fst (mobile_auth demo_digest demo_runtime demo_store (signin_body ''9000000009'' ''pw-ravi''))
          = AuthError
      \<and> snd (mobile_auth demo_digest demo_runtime demo_store (signin_body ''9000000009'' ''pw-ravi''))
          = demo_store"
    by simp
  then have 3: "mobile_auth demo_digest demo_runtime demo_store (signin_body ''9000000009'' ''pw-ravi'')
       = (AuthError, demo_store)"
    by (simp add: prod_eq_iff)
  from g1 g2 1 2 3 show ?thesis by simp
qed

text \<open>
  The claim as stated (for every input, the answer to a failed authentication
  is the generic error) fails for an empty password: the required-fields check
  answers 400 before the credential is looked up.
\<close>

theorem authenticate_empty_password_counterexample:
  "\<not> credential_matches demo_digest demo_store ''9000000001'' []
   \<and> mobile_auth demo_digest demo_runtime demo_store (signin_body ''9000000001'' [])
       = (respond 400 (ErrorMsg ''Mobile number and password are required''), demo_store)
   \<and> fst (mobile_auth demo_digest demo_runtime demo_store (signin_body ''9000000001'' []))
       \<noteq> AuthError
   \<and> status (fst (mobile_auth demo_digest demo_runtime demo_store (signin_body ''9000000001'' [])))
       \<noteq> 401"
proof -
  have hne: "hashPassword demo_digest ''pw-ravi'' \<noteq> hashPassword demo_digest []"
    by code_simp
  then have "\<not> credential_matches demo_digest demo_store ''9000000001'' []"
    by (simp add: credential_matches_def demo_store_def)
  moreover have "mobile_auth demo_digest demo_runtime demo_store (signin_body ''9000000001'' [])
       = (respond 400 (ErrorMsg ''Mobile number and password are required''), demo_store)"
    by (simp add: mobile_auth_def signin_body_def)
  ultimately show ?thesis
    by (simp add: AuthError_def respond_def)
qed

subsection \<open>A second signin invalidates the first session\<close>

lemma mobile_auth_signin_success:
  assumes "mobile_auth sha rt db (signin_body m p) = (r, db')" and "is_success r"
  shows "signin sha rt db m p = (r, db')"
proof (cases "m = [] \<or> p = []")
  case True
  then have "mobile_auth sha rt db (signin_body m p) =
               (respond 400 (ErrorMsg ''Mobile number and password are required''), db)"
    by (auto simp: mobile_auth_def signin_body_def)
  with assms(1) have "r = respond 400 (ErrorMsg ''Mobile number and password are required'')"
    by simp
  with assms(2) have False by (simp add: is_success_def respond_def)
  then show ?thesis ..
next
  case False
  with assms(1) show ?thesis by (simp add: mobile_auth_signin)
qed

lemma mobile_auth_signin_sessions:
  assumes "mobile_auth sha rt db (signin_body m p) = (r, db')"
      and "is_success r" and "body r = AuthSuccess v t"
  shows "t = generateSessionToken rt"
    and "t \<notin> set (map sess_token (sessions db))"
    and "sessions db' = invalidate (uv_id v) (sessions db) @ [new_session rt (uv_id v)]"
proof -
  from signin_success [OF mobile_auth_signin_success [OF assms(1,2)] assms(2)]
  have "t = generateSessionToken rt \<and> t \<notin> set (map sess_token (sessions db))
      \<and> sessions db' = invalidate (uv_id v) (sessions db) @ [new_session rt (uv_id v)]"
  proof (elim exE conjE)
    fix c :: credential and w :: user_view
    assume 1: "body r = AuthSuccess w (generateSessionToken rt)" and 2: "uv_id w = cred_id c"
      and 3: "generateSessionToken rt \<notin> set (map sess_token (sessions db))"
      and 4: "sessions db' = invalidate (cred_id c) (sessions db) @ [new_session rt (cred_id c)]"
    from 1 assms(3) have wv: "w = v" and tt: "t = generateSessionToken rt" by simp_all
    from 2 wv have "cred_id c = uv_id v" by simp
    with 3 4 tt show ?thesis by simp
  qed
  then show "t = generateSessionToken rt"
    and "t \<notin> set (map sess_token (sessions db))"
    and "sessions db' = invalidate (uv_id v) (sessions db) @ [new_session rt (uv_id v)]"
    by blast+
qed

lemma validate_session_none:
  assumes "\<And>s. s \<in> set ss \<Longrightarrow> sess_token s = tok \<Longrightarrow> \<not> sess_active s \<or> sess_expires s \<le> now"
  shows "validate_session now ss tok = None"
proof -
  have "\<not> (sess_token s = tok \<and> sess_active s \<and> now < sess_expires s)" if "s \<in> set ss" for s
    using assms [OF that] by auto
  then have "filter (\<lambda>s. sess_token s = tok \<and> sess_active s \<and> now < sess_expires s) ss = []"
    by (simp add: filter_empty_conv)
  then show ?thesis by (simp add: validate_session_def)
qed

lemma validate_session_last:
  assumes "tok \<notin> set (map sess_token ss)"
      and "sess_token s = tok" and "sess_active s" and "now < sess_expires s"
  shows "validate_session now (ss @ [s]) tok = Some (sess_user s)"
proof -
  have "filter (\<lambda>s. sess_token s = tok \<and> sess_active s \<and> now < sess_expires s) ss = []"
    using assms(1) by (auto simp: filter_empty_conv)
  with assms(2,3,4) show ?thesis by (simp add: validate_session_def)
qed

lemma invalidate_append: "invalidate user (xs @ ys) = invalidate user xs @ invalidate user ys"
  by (simp add: invalidate_def)

text \<open>
  C1. When two authentications in sequence succeed for the same user, then in
  the tables after the second one the token issued by the first is not valid
  (its row was marked inactive before the second row was inserted), and the
  token issued by the second is valid for that user at every time before its
  expiry, 30 days after the second request.
\<close>

theorem second_signin_invalidates_first:
  assumes "mobile_auth sha rt db (signin_body m p) = (r, db')"
      and "is_success r" and "body r = AuthSuccess v t"
      and "mobile_auth sha rt' db' (signin_body m' p') = (r', db'')"
      and "is_success r'" and "body r' = AuthSuccess v' t'"
      and "uv_id v' = uv_id v"
      and "now < rt_now rt' + thirty_days"
  shows "validate_session now (sessions db'') t = None
       \<and> validate_session now (sessions db'') t' = Some (uv_id v')"
proof -
  note a = mobile_auth_signin_sessions [OF assms(1,2,3)]
  note b = mobile_auth_signin_sessions [OF assms(4,5,6)]
  let ?u = "uv_id v'"
  note same = assms(7) [symmetric]
  have "sess_token (new_session rt (uv_id v)) = t"
    by (simp add: new_session_def a(1))
  then have "t \<in> set (map sess_token (sessions db'))"
    by (simp add: a(3))
  with b(2) have diff: "t' \<noteq> t" by auto
  have first: "validate_session now (sessions db'') t = None"
  proof (rule validate_session_none)
    fix s assume s: "s \<in> set (sessions db'')" "sess_token s = t"
    have "sessions db'' = invalidate ?u (invalidate ?u (sessions db))
                            @ invalidate ?u [new_session rt ?u] @ [new_session rt' ?u]"
      by (simp add: b(3) a(3) same invalidate_append)
    with s(1) consider (old) "s \<in> set (invalidate ?u (invalidate ?u (sessions db)))"
      | (mid) "s \<in> set (invalidate ?u [new_session rt ?u])"
      | (new) "s = new_session rt' ?u"
      by auto
    then show "\<not> sess_active s \<or> sess_expires s \<le> now"
    proof cases
      case old
      then have "sess_token s \<in> sess_token ` set (invalidate ?u (invalidate ?u (sessions db)))"
        by (rule imageI)
      then have "sess_token s \<in> set (map sess_token (sessions db))"
        by (simp add: invalidate_token_set)
      with s(2) a(2) show ?thesis by simp
    next
      case mid
      then show ?thesis by (simp add: invalidate_def new_session_def)
    next
      case new
      with s(2) diff b(1) show ?thesis by (simp add: new_session_def)
    qed
  qed
  have "t' \<notin> set (map sess_token (invalidate ?u (sessions db')))"
    using b(2) by (simp add: invalidate_token_set)
  then have "validate_session now (invalidate ?u (sessions db') @ [new_session rt' ?u]) t'
               = Some (sess_user (new_session rt' ?u))"
    by (rule validate_session_last) (simp_all add: new_session_def b(1) assms(8))
  then have second: "validate_session now (sessions db'') t' = Some ?u"
    by (simp add: b(3) new_session_def)
  from first second show ?thesis by simp
qed

lemma signin_succeeds:
  assumes "m \<noteq> []" and "p \<noteq> []"
      and "filter (\<lambda>c. cred_mobile c = m) (credentials db) = [c]"
      and "cred_hash c = hashPassword sha p" and "fresh_token rt db"
  shows "mobile_auth sha rt db (signin_body m p) =
           (respond 200 (AuthSuccess (signin_user db c m) (generateSessionToken rt)),
            signed_in rt db (cred_id c))"
  using assms(4,5) signin_one_row [OF assms(3), of sha rt p]
  by (simp add: mobile_auth_signin [OF assms(1,2)] fresh_token_def signin_user_def signed_in_def)

lemma signed_in_rows:
  "credentials (signed_in rt db user) = credentials db"
  "sessions (signed_in rt db user) = invalidate user (sessions db) @ [new_session rt user]"
  by (simp_all add: signed_in_def)

theorem second_signin_invalidates_first_witness:
  "validate_session 3000
     (sessions (signed_in later_runtime (signed_in demo_runtime demo_store 3) 3))
     (generateSessionToken demo_runtime) = None
   \<and> validate_session 3000
     (sessions (signed_in later_runtime (signed_in demo_runtime demo_store 3) 3))
     (generateSessionToken later_runtime) = Some 3
   \<and> validate_session 3000 (sessions (signed_in demo_runtime demo_store 3))
     (generateSessionToken demo_runtime) = Some 3"
proof -
  let ?c = "\<lparr>cred_id = 3, cred_mobile = ''9000000001'',
             cred_hash = hashPassword demo_digest ''pw-ravi''\<rparr>"
  let ?db1 = "signed_in demo_runtime demo_store 3"
  let ?db2 = "signed_in later_runtime ?db1 3"
  have ne: "''9000000001'' \<noteq> []" "''pw-ravi'' \<noteq> []" by simp_all
  have tok1: "generateSessionToken demo_runtime =
               ''000102030405060708090a0b0c0d0e0f101112131415161718191a1b1c1d1e1f''"
    by code_simp
  have tok2: "generateSessionToken later_runtime =
               ''c8c9cacbcccdcecfd0d1d2d3d4d5d6d7d8d9dadbdcdddedfe0e1e2e3e4e5e6e7''"
    by code_simp
  have f0: "filter (\<lambda>c. cred_mobile c = ''9000000001'') (credentials demo_store) = [?c]"
    by (simp add: demo_store_def)
  then have f1: "filter (\<lambda>c. cred_mobile c = ''9000000001'') (credentials ?db1) = [?c]"
    by (simp add: signed_in_rows)
  have fresh0: "fresh_token demo_runtime demo_store"
    by (simp add: fresh_token_def tok1 demo_store_def)
  have fresh1: "fresh_token later_runtime ?db1"
    by (simp add: fresh_token_def tok1 tok2 demo_store_def signed_in_rows invalidate_token_set
          new_session_def)
  have h: "cred_hash ?c = hashPassword demo_digest ''pw-ravi''" by simp
  have s1: "mobile_auth demo_digest demo_runtime demo_store (signin_body ''9000000001'' ''pw-ravi'') =
              (respond 200 (AuthSuccess (signin_user demo_store ?c ''9000000001'')
                                        (generateSessionToken demo_runtime)), ?db1)"
    using signin_succeeds [OF ne f0 h fresh0] by simp
  have s2: "mobile_auth demo_digest later_runtime ?db1 (signin_body ''9000000001'' ''pw-ravi'') =
              (respond 200 (AuthSuccess (signin_user ?db1 ?c ''9000000001'')
                                        (generateSessionToken later_runtime)), ?db2)"
    using signin_succeeds [OF ne f1 h fresh1] by simp
  have u0: "uv_id (signin_user demo_store ?c ''9000000001'') = 3"
    by (simp add: signin_user_def demo_store_def)
  have u1: "uv_id (signin_user ?db1 ?c ''9000000001'') = 3"
    by (simp add: signin_user_def signed_in_def demo_store_def)
  have t: "(3000::int) < rt_now later_runtime + thirty_days"
    by (simp add: later_runtime_def thirty_days_def)
  have ok: "is_success (respond 200 (AuthSuccess v x))" for v x
    by (simp add: is_success_def respond_def)
  have b: "body (respond 200 (AuthSuccess v x)) = AuthSuccess v x" for v x
    by (simp add: respond_def)
  from second_signin_invalidates_first [OF s1 ok b s2 ok b _ t] u0 u1
  have 1: "validate_session 3000 (sessions ?db2) (generateSessionToken demo_runtime) = None
     \<and> validate_session 3000 (sessions ?db2) (generateSessionToken later_runtime) = Some 3"
    by simp
  have 2: "validate_session 3000 (sessions ?db1) (generateSessionToken demo_runtime) = Some 3"
    by (simp add: validate_session_def signed_in_rows invalidate_def new_session_def tok1
          demo_store_def demo_runtime_def thirty_days_def)
  from 1 2 show ?thesis by simp
qed

subsection \<open>Registration followed by authentication\<close>

text \<open>
  C8. After a successful registration (valid input, unused mobile number and
  username, fresh identifier and token), an authentication with the same
  mobile number and password is never answered with the authentication
  error; it succeeds, for the registered user, exactly when the token drawn
  for it is not already stored, and whenever it succeeds its session token
  differs from the one the registration returned.
\<close>

theorem register_then_authenticate:
  assumes "m \<noteq> []" and "p \<noteq> []" and "f \<noteq> []" and "usernameRegex_test u"
      and "mobile_unused m db" and "username_unused u db"
      and "fresh_uuid rt db" and "fresh_token rt db"
  shows "is_success (fst (mobile_auth sha rt db (signup_body m p f u)))
       \<and> body (fst (mobile_auth sha rt db (signup_body m p f u))) =
           AuthSuccess \<lparr>uv_id = rt_uuid rt, uv_mobile = m, uv_full_name = Some f, uv_profile = None\<rparr>
                       (generateSessionToken rt)
       \<and> fst (mobile_auth sha rt' (snd (mobile_auth sha rt db (signup_body m p f u)))
                 (signin_body m p)) \<noteq> AuthError
       \<and> (is_success (fst (mobile_auth sha rt' (snd (mobile_auth sha rt db (signup_body m p f u)))
                              (signin_body m p)))
            \<longleftrightarrow> fresh_token rt' (snd (mobile_auth sha rt db (signup_body m p f u))))
       \<and> (is_success (fst (mobile_auth sha rt' (snd (mobile_auth sha rt db (signup_body m p f u)))
                              (signin_body m p)))
            \<longrightarrow> body (fst (mobile_auth sha rt' (snd (mobile_auth sha rt db (signup_body m p f u)))
                               (signin_body m p))) =
                  AuthSuccess (signin_user (registered sha rt db m p f u) (new_credential sha rt m p) m)
                              (generateSessionToken rt')
              \<and> uv_id (signin_user (registered sha rt db m p f u) (new_credential sha rt m p) m)
                  = rt_uuid rt
              \<and> generateSessionToken rt' \<noteq> generateSessionToken rt)"
proof -
  let ?db1 = "registered sha rt db m p f u"
  let ?c = "new_credential sha rt m p"
  have first: "mobile_auth sha rt db (signup_body m p f u) =
                 (respond 200 (AuthSuccess \<lparr>uv_id = rt_uuid rt, uv_mobile = m,
                                            uv_full_name = Some f, uv_profile = None\<rparr>
                                           (generateSessionToken rt)), ?db1)"
    using assms by (simp add: mobile_auth_signup signup_fresh)
  have h: "cred_hash ?c = hashPassword sha p" by (simp add: new_credential_def)
  note row = registered_mobile_row [OF assms(5), of sha rt p f u]
  have uid: "uv_id (signin_user ?db1 ?c m) = rt_uuid rt"
    by (auto simp: signin_user_def new_credential_def split: option.splits dest: single_profile_id)
  have stored: "generateSessionToken rt \<in> set (map sess_token (sessions ?db1))"
    by (simp add: registered_rows new_session_def)
  show ?thesis
  proof (cases "fresh_token rt' ?db1")
    case True
    from stored True have diff: "generateSessionToken rt' \<noteq> generateSessionToken rt"
      by (auto simp: fresh_token_def)
    from signin_succeeds [OF assms(1,2) row h True] diff uid True
    show ?thesis
      by (simp add: first is_success_def respond_def AuthError_def)
  next
    case False
    then have "mobile_auth sha rt' ?db1 (signin_body m p) =
                 (respond 500 (ErrorMsg ''Failed to create session''),
                  ?db1\<lparr>sessions := invalidate (cred_id ?c) (sessions ?db1)\<rparr>)"
      using signin_one_row [OF row, of sha rt' p] h
      by (simp add: mobile_auth_signin [OF assms(1,2)] fresh_token_def)
    with False show ?thesis
      by (simp add: first is_success_def respond_def AuthError_def)
  qed
qed

theorem register_then_authenticate_witness:
  "is_success (fst (mobile_auth demo_digest demo_runtime demo_store
                      (signup_body ''9000000002'' ''pw-asha'' ''Asha'' ''asha_01'')))
   \<and> is_success (fst (mobile_auth demo_digest later_runtime
                        (snd (mobile_auth demo_digest demo_runtime demo_store
                                (signup_body ''9000000002'' ''pw-asha'' ''Asha'' ''asha_01'')))
                        (signin_body ''9000000002'' ''pw-asha'')))
   \<and> generateSessionToken later_runtime \<noteq> generateSessionToken demo_runtime"
proof -
  have ne: "''9000000002'' \<noteq> []" "''pw-asha'' \<noteq> []" "''Asha'' \<noteq> []" by simp_all
  have re: "usernameRegex_test ''asha_01''"
    by (simp add: usernameRegex_test_iff allowed_chars_def)
  have lc: "toLowerCase ''asha_01'' = ''asha_01''" "toLowerCase ''Ravi_K'' = ''ravi_k''"
    by code_simp+
  have mu: "mobile_unused ''9000000002'' demo_store"
    by (simp add: mobile_unused_def demo_store_def)
  have uu: "username_unused ''asha_01'' demo_store"
    by (simp add: username_unused_def demo_store_def username_clash_def lc)
  have fu: "fresh_uuid demo_runtime demo_store"
    by (simp add: fresh_uuid_def demo_store_def demo_runtime_def)
  have tok1: "generateSessionToken demo_runtime =
               ''000102030405060708090a0b0c0d0e0f101112131415161718191a1b1c1d1e1f''"
    by code_simp
  have tok2: "generateSessionToken later_runtime =
               ''c8c9cacbcccdcecfd0d1d2d3d4d5d6d7d8d9dadbdcdddedfe0e1e2e3e4e5e6e7''"
    by code_simp
  have ft: "fresh_token demo_runtime demo_store"
    by (simp add: fresh_token_def tok1 demo_store_def)
  have first: "snd (mobile_auth demo_digest demo_runtime demo_store
                      (signup_body ''9000000002'' ''pw-asha'' ''Asha'' ''asha_01''))
               = registered demo_digest demo_runtime demo_store ''9000000002'' ''pw-asha'' ''Asha'' ''asha_01''"
    using signup_fresh [OF ne(3) re mu uu fu ft, of demo_digest "''pw-asha''"]
    by (simp add: mobile_auth_signup)
  have ft2: "fresh_token later_runtime
               (snd (mobile_auth demo_digest demo_runtime demo_store
                       (signup_body ''9000000002'' ''pw-asha'' ''Asha'' ''asha_01'')))"
  proof -
    have "fresh_token later_runtime
            (registered demo_digest demo_runtime demo_store ''9000000002'' ''pw-asha'' ''Asha'' ''asha_01'')"
      by (simp add: fresh_token_def registered_rows new_session_def tok1 tok2 demo_store_def)
    then show ?thesis by (simp only: first)
  qed
  from register_then_authenticate [OF ne re mu uu fu ft, of demo_digest later_runtime] ft2
  show ?thesis by blast
qed

subsection \<open>The admin_validate action\<close>

lemma unknown_action_rejected:
  assumes "action b \<noteq> Some ''signup''" and "action b \<noteq> Some ''signin''"
  shows "status (fst (mobile_auth sha rt db b)) = 400 \<and> snd (mobile_auth sha rt db b) = db"
  using assms by (simp add: mobile_auth_def respond_def split: option.splits)

text \<open>
  C4. The claim asks that a request with action admin_validate and a valid
  session token is answered with a success payload. The handler has no such
  branch: the request of the admin console, which carries the action and the
  token only, is answered 400 by the required-fields check although the token
  is valid, and with a mobile number and a password added it is answered 400
  "Invalid action". No table changes.
\<close>

theorem admin_validate_is_rejected:
  "validate_session (rt_now demo_runtime) (sessions demo_store) ''c0ffee'' = Some 3
   \<and> serve demo_digest demo_runtime demo_store
        \<lparr>req_method = ''POST'', req_json = Some (admin_validate_body ''c0ffee'')\<rparr>
       = (respond 400 (ErrorMsg ''Mobile number and password are required''), demo_store)
   \<and> serve demo_digest demo_runtime demo_store
        \<lparr>req_method = ''POST'',
         req_json = Some ((admin_validate_body ''c0ffee'')
                            \<lparr>mobile_number := Some ''9000000001'', password := Some ''pw-ravi''\<rparr>)\<rparr>
       = (respond 400 (ErrorMsg ''Invalid action''), demo_store)"
  by (simp add: validate_session_def demo_runtime_def demo_store_def serve_def mobile_auth_def
        admin_validate_body_def)

end
